theory Spec2Isabelle
  imports Complex_Main
begin

section \<open>Data model\<close>

text \<open>
  A price row as \<^verbatim>\<open>main.py\<close> handles it: the dict built by
  \<^verbatim>\<open>create_sample_data\<close> and \<^verbatim>\<open>fetch_yfinance_with_retry\<close>, and the
  row of the \<^verbatim>\<open>prices\<close> table (without its symbol).

  The source keeps a date as the text \<^verbatim>\<open>YYYY-MM-DD\<close> and compares it as text.
  The model keeps a date as its proleptic Gregorian ordinal (Python's
  \<^verbatim>\<open>date.toordinal()\<close>: day 1 is 0001-01-01); for zero-padded ISO dates the order of the
  texts is the order of the ordinals. Prices are Python floats; the model computes with exact
  reals, so IEEE rounding is not part of it.
\<close>

record bar =
  date :: int
  open_px :: real
  high :: real
  low :: real
  close :: real
  volume :: int

text \<open>
  A float that a numpy computation returns. numpy does not raise on a zero divisor: it
  yields \<^verbatim>\<open>inf\<close> or \<^verbatim>\<open>nan\<close> (with a RuntimeWarning). \<open>None\<close> stands for such a
  non-finite value, \<open>Some x\<close> for the finite value \<open>x\<close>. Once a value is non-finite,
  every value computed from it in \<^verbatim>\<open>calculate_metrics\<close> is non-finite too.
\<close>

type_synonym npfloat = "real option"

definition np_add :: "npfloat \<Rightarrow> npfloat \<Rightarrow> npfloat" where
  "np_add a b = (case a of None \<Rightarrow> None | Some x \<Rightarrow> (case b of None \<Rightarrow> None | Some y \<Rightarrow> Some (x + y)))"

definition np_sub :: "npfloat \<Rightarrow> npfloat \<Rightarrow> npfloat" where
  "np_sub a b = (case a of None \<Rightarrow> None | Some x \<Rightarrow> (case b of None \<Rightarrow> None | Some y \<Rightarrow> Some (x - y)))"

definition np_mul :: "npfloat \<Rightarrow> npfloat \<Rightarrow> npfloat" where
  "np_mul a b = (case a of None \<Rightarrow> None | Some x \<Rightarrow> (case b of None \<Rightarrow> None | Some y \<Rightarrow> Some (x * y)))"

definition np_div :: "npfloat \<Rightarrow> npfloat \<Rightarrow> npfloat" where
  "np_div a b = (case a of None \<Rightarrow> None | Some x \<Rightarrow>
     (case b of None \<Rightarrow> None | Some y \<Rightarrow> if y = 0 then None else Some (x / y)))"

definition np_maximum :: "npfloat \<Rightarrow> npfloat \<Rightarrow> npfloat" where
  "np_maximum a b = (case a of None \<Rightarrow> None | Some x \<Rightarrow> (case b of None \<Rightarrow> None | Some y \<Rightarrow> Some (max x y)))"

text \<open>The dataclass \<^verbatim>\<open>Metrics\<close>.\<close>

record Metrics =
  returns :: npfloat
  volatility :: npfloat
  max_drawdown :: npfloat
  current_price :: npfloat
  price_change :: npfloat
  price_change_pct :: npfloat

section \<open>calculate_metrics\<close>

text \<open>\<^verbatim>\<open>np.diff(closes)\<close>: the differences of consecutive elements.\<close>

definition np_diff :: "real list \<Rightarrow> real list" where
  "np_diff cs = map2 (\<lambda>a b. b - a) (butlast cs) (tl cs)"

text \<open>
  The running fold behind \<^verbatim>\<open>cumprod\<close> and \<^verbatim>\<open>np.maximum.accumulate\<close>: the first
  element of the result is the first element of the array, each later one combines the
  previous result with the next element.
\<close>

fun accumulate :: "('a \<Rightarrow> 'a \<Rightarrow> 'a) \<Rightarrow> 'a \<Rightarrow> 'a list \<Rightarrow> 'a list" where
  "accumulate f a [] = []"
| "accumulate f a (x # xs) = f a x # accumulate f (f a x) xs"

definition cumprod :: "npfloat list \<Rightarrow> npfloat list" where
  "cumprod xs = (case xs of [] \<Rightarrow> [] | x # ys \<Rightarrow> x # accumulate np_mul x ys)"

definition maximum_accumulate :: "npfloat list \<Rightarrow> npfloat list" where
  "maximum_accumulate xs = (case xs of [] \<Rightarrow> [] | x # ys \<Rightarrow> x # accumulate np_maximum x ys)"

text \<open>
  \<^verbatim>\<open>np.std\<close>: the population standard deviation. A non-finite element makes the result
  non-finite; so does the empty array (numpy returns \<^verbatim>\<open>nan\<close> there).
\<close>

definition pstdev :: "real list \<Rightarrow> real" where
  "pstdev rs = (let n = real (length rs); mu = sum_list rs / n
                in sqrt (sum_list (map (\<lambda>x. (x - mu)\<^sup>2) rs) / n))"

definition np_std :: "npfloat list \<Rightarrow> npfloat" where
  "np_std xs = (case those xs of None \<Rightarrow> None
                | Some rs \<Rightarrow> if rs = [] then None else Some (pstdev rs))"

text \<open>
  \<^verbatim>\<open>np.min\<close>. On an empty array numpy raises; \<^verbatim>\<open>calculate_metrics\<close> only calls it on
  an array of at least one element, and the model gives \<open>None\<close> for the empty one.
\<close>

definition np_min :: "npfloat list \<Rightarrow> npfloat" where
  "np_min xs = (case those xs of None \<Rightarrow> None
                | Some rs \<Rightarrow> (case rs of [] \<Rightarrow> None | r # rs' \<Rightarrow> Some (fold min rs' r)))"

text \<open>
  The closes in chronological order: \<^verbatim>\<open>prices_df.sort_values('date')['close'].values\<close>.
  The rows of one symbol have distinct dates (the primary key of the table), and then every
  sorting algorithm gives the same order.
\<close>

definition sorted_closes :: "bar list \<Rightarrow> real list" where
  "sorted_closes prices_df = map close (sort_key date prices_df)"

definition daily_returns_of :: "real list \<Rightarrow> npfloat list" where
  "daily_returns_of closes = map2 (\<lambda>d c. np_div (Some d) (Some c)) (np_diff closes) (butlast closes)"

definition drawdown_of :: "npfloat list \<Rightarrow> npfloat list" where
  "drawdown_of daily_returns =
     (let cumulative = cumprod (map (np_add (Some 1)) daily_returns);
          running_max = maximum_accumulate cumulative
      in map2 (\<lambda>c m. np_div (np_sub c m) m) cumulative running_max)"

definition calculate_metrics :: "bar list \<Rightarrow> Metrics" where
  "calculate_metrics prices_df =
     (if length prices_df < 2
      then \<lparr>returns = Some 0, volatility = Some 0, max_drawdown = Some 0,
            current_price = Some 0, price_change = Some 0, price_change_pct = Some 0\<rparr>
      else
        let closes = sorted_closes prices_df;
            total_return = np_div (Some (last closes - hd closes)) (Some (hd closes));
            daily_returns = daily_returns_of closes;
            vol = np_mul (np_std daily_returns) (Some (sqrt 252));
            mdd = np_min (drawdown_of daily_returns);
            cur = last closes;
            chg = (if length closes > 1
                   then last closes - closes ! (length closes - 2) else 0);
            pct = (if length closes > 1 \<and> closes ! (length closes - 2) \<noteq> 0
                   then np_div (Some chg) (Some (closes ! (length closes - 2))) else Some 0)
        in \<lparr>returns = total_return, volatility = vol, max_drawdown = mdd,
            current_price = Some cur, price_change = Some chg, price_change_pct = pct\<rparr>)"

text \<open>No field of the snapshot is \<^verbatim>\<open>inf\<close> or \<^verbatim>\<open>nan\<close>: no division met a zero divisor.\<close>

definition finite_metrics :: "Metrics \<Rightarrow> bool" where
  "finite_metrics m \<longleftrightarrow>
     returns m \<noteq> None \<and> volatility m \<noteq> None \<and> max_drawdown m \<noteq> None \<and>
     current_price m \<noteq> None \<and> price_change m \<noteq> None \<and> price_change_pct m \<noteq> None"


section \<open>Requests, errors and rounding\<close>

text \<open>The enum \<^verbatim>\<open>TimeRange\<close> and its \<^verbatim>\<open>.value\<close>.\<close>

datatype TimeRange = SEVEN_DAYS | ONE_MONTH | SIX_MONTHS | ONE_YEAR

fun range_value :: "TimeRange \<Rightarrow> string" where
  "range_value SEVEN_DAYS = ''7d''"
| "range_value ONE_MONTH = ''1mo''"
| "range_value SIX_MONTHS = ''6mo''"
| "range_value ONE_YEAR = ''1y''"

definition yf_range_to_period :: "string \<Rightarrow> string" where
  "yf_range_to_period range_str =
     (case map_of [(''7d'', ''7d''), (''1mo'', ''1mo''), (''6mo'', ''6mo''), (''1y'', ''1y'')] range_str of
        Some p \<Rightarrow> p | None \<Rightarrow> ''1mo'')"

text \<open>
  The Python exception that the modelled code can meet: \<^verbatim>\<open>datetime - timedelta\<close> raises
  \<^verbatim>\<open>OverflowError\<close> when the \<^verbatim>\<open>timedelta\<close> has more than 999999999 days or when the
  result leaves the years 1 to 9999 (the ordinals 1 to 3652059). Failures of the database
  file are not modelled.
\<close>

datatype py_error = OverflowError

definition date_minus_days :: "int \<Rightarrow> int \<Rightarrow> py_error + int" where
  "date_minus_days d k =
     (if 999999999 < \<bar>k\<bar> \<or> d - k < 1 \<or> 3652059 < d - k then Inl OverflowError
      else Inr (d - k))"

text \<open>
  What a request handler ends with when it does not return: an \<^verbatim>\<open>HTTPException\<close> with
  its status code, or an exception that nothing catches.
\<close>

datatype http_error = HTTPException nat | Unhandled py_error

text \<open>\<^verbatim>\<open>round(x, 2)\<close>: to the nearest multiple of 0.01, a tie to the even one.\<close>

definition round_half_even :: "real \<Rightarrow> int" where
  "round_half_even y =
     (let f = \<lfloor>y\<rfloor>; d = y - of_int f
      in if d < 1 / 2 then f else if 1 / 2 < d then f + 1 else if even f then f else f + 1)"

definition py_round2 :: "real \<Rightarrow> real" where
  "py_round2 x = of_int (round_half_even (x * 100)) / 100"

definition np_round2 :: "npfloat \<Rightarrow> npfloat" where
  "np_round2 a = map_option py_round2 a"

text \<open>\<^verbatim>\<open>str.upper()\<close> and \<^verbatim>\<open>str.strip()\<close>, on ASCII text.\<close>

definition upper_char :: "char \<Rightarrow> char" where
  "upper_char c =
     (case map_of (zip ''abcdefghijklmnopqrstuvwxyz'' ''ABCDEFGHIJKLMNOPQRSTUVWXYZ'') c of
        Some u \<Rightarrow> u | None \<Rightarrow> c)"

definition py_upper :: "string \<Rightarrow> string" where
  "py_upper s = map upper_char s"

definition is_space :: "char \<Rightarrow> bool" where
  "is_space c \<longleftrightarrow>
     c \<in> set [CHR '' '', CHR 0x09, CHR 0x0A, CHR 0x0B, CHR 0x0C, CHR 0x0D,
                CHR 0x1C, CHR 0x1D, CHR 0x1E, CHR 0x1F]"

definition py_strip :: "string \<Rightarrow> string" where
  "py_strip s = rev (dropWhile is_space (rev (dropWhile is_space s)))"

section \<open>create_sample_data\<close>

text \<open>
  The values that one call of \<^verbatim>\<open>create_sample_data\<close> draws from \<^verbatim>\<open>random\<close>, by the
  iteration that draws them: \<open>smp_change\<close> is \<^verbatim>\<open>random.uniform(-0.03, 0.035)\<close>,
  \<open>smp_volume\<close> is \<^verbatim>\<open>random.randint(10000000, 100000000)\<close>, \<open>smp_high\<close> is
  \<^verbatim>\<open>random.uniform(1.0, 1.03)\<close>, \<open>smp_low\<close> is \<^verbatim>\<open>random.uniform(0.97, 1.0)\<close> and
  \<open>smp_open\<close> is the \<^verbatim>\<open>random()\<close> inside \<^verbatim>\<open>random.uniform(low, high)\<close>, which returns
  \<^verbatim>\<open>low + (high - low) * random()\<close>.
\<close>

record samples =
  smp_change :: "nat \<Rightarrow> real"
  smp_volume :: "nat \<Rightarrow> int"
  smp_high :: "nat \<Rightarrow> real"
  smp_low :: "nat \<Rightarrow> real"
  smp_open :: "nat \<Rightarrow> real"

definition base_prices :: "(string \<times> real) list" where
  "base_prices = [(''AAPL'', 180), (''MSFT'', 350), (''GOOGL'', 140),
                  (''SPY'', 450), (''QQQ'', 380), (''TSLA'', 200)]"

definition base_price_of :: "string \<Rightarrow> real" where
  "base_price_of symbol = (case map_of base_prices symbol of Some p \<Rightarrow> p | None \<Rightarrow> 100)"

text \<open>
  The first loop, over the iterations still to run; \<open>tdy\<close> is the calendar day of
  \<^verbatim>\<open>datetime.now()\<close>. The model reads the clock once for the call.
\<close>

fun walk :: "int \<Rightarrow> samples \<Rightarrow> real \<Rightarrow> int \<Rightarrow> nat list \<Rightarrow> int list \<Rightarrow> real list
             \<Rightarrow> py_error + (int list \<times> real list)" where
  "walk tdy smp base days [] dates prices = Inr (dates, prices)"
| "walk tdy smp base days (i # is) dates prices =
     (case date_minus_days tdy (days - int i - 1) of
        Inl e \<Rightarrow> Inl e
      | Inr d \<Rightarrow>
          (let price = (if i = 0 then base
                        else max (last prices * (1 + smp_change smp i)) (base * 0.7))
           in walk tdy smp base days is (dates @ [d]) (prices @ [price])))"

text \<open>The body of the second loop.\<close>

definition make_bar :: "samples \<Rightarrow> nat \<Rightarrow> int \<Rightarrow> real \<Rightarrow> bar" where
  "make_bar smp i d price =
     (let vol = smp_volume smp i;
          hi = price * smp_high smp i;
          lo = price * smp_low smp i;
          open_price = lo + (hi - lo) * smp_open smp i
      in \<lparr>date = d, open_px = py_round2 open_price, high = py_round2 hi, low = py_round2 lo,
          close = py_round2 price, volume = vol\<rparr>)"

definition create_sample_data :: "int \<Rightarrow> samples \<Rightarrow> string \<Rightarrow> int \<Rightarrow> py_error + bar list" where
  "create_sample_data tdy smp symbol days =
     (let base_price = base_price_of symbol
      in case walk tdy smp base_price days [0..<nat days] [] [] of
           Inl e \<Rightarrow> Inl e
         | Inr (dates, prices) \<Rightarrow>
             Inr (map (\<lambda>(i, d, price). make_bar smp i d price) (enumerate 0 (zip dates prices))))"

section \<open>The state of the process and its environment\<close>

text \<open>
  \<open>CACHE\<close> is the module's dict, \<open>prices\<close> and \<open>summaries\<close> are the two tables of the
  database. The table \<open>prices\<close> is the list of its rows, each a symbol and a bar; its primary
  key (symbol, date) is kept by \<open>insert_or_replace\<close>. The three counters are not in the
  source: they count the cache lookups, the attempts made on yfinance and the calls of
  \<^verbatim>\<open>create_sample_data\<close>, so that a theorem can say that none took place.
\<close>

record world =
  CACHE :: "string \<times> string \<rightharpoonup> bar list \<times> real"
  prices :: "(string \<times> bar) list"
  summaries :: "string \<times> int \<times> string \<rightharpoonup> string"
  cache_lookups :: nat
  yf_calls :: nat
  sample_calls :: nat

text \<open>
  What one attempt on yfinance gives: an exception (of the transport, or of the conversion of
  a row), no frame, or the rows of the frame, already converted.
\<close>

datatype yf_result = YfRaise | YfNone | YfHist "bar list"

text \<open>
  What a request reads from outside: \<^verbatim>\<open>time.time()\<close>, the local calendar day of
  \<^verbatim>\<open>datetime.now()\<close>, the day of SQLite's \<^verbatim>\<open>DATE('now')\<close>, the outcome of the n-th attempt
  on yfinance since the process started, and the random draws of the n-th call of
  \<^verbatim>\<open>create_sample_data\<close>. A request reads each clock once.
\<close>

record env =
  time_now :: real
  today :: int
  sql_today :: int
  yf_history :: "nat \<Rightarrow> string \<Rightarrow> string \<Rightarrow> yf_result"
  rnd :: "nat \<Rightarrow> samples"

section \<open>fetch_yfinance_with_retry\<close>

definition CACHE_TTL :: real where
  "CACHE_TTL = 300"

text \<open>
  The retry loop, over the attempts still to make; \<open>k\<close> counts the attempts made so far.
  An attempt succeeds when the frame has at least two rows; an exception is caught and the
  loop continues. The sleep before a retry changes nothing that the model holds.
\<close>

fun yf_attempts :: "env \<Rightarrow> string \<Rightarrow> string \<Rightarrow> nat \<Rightarrow> nat \<Rightarrow> bar list option \<times> nat" where
  "yf_attempts e symbol period 0 k = (None, k)"
| "yf_attempts e symbol period (Suc n) k =
     (case yf_history e k symbol period of
        YfHist hist \<Rightarrow>
          if 2 \<le> length hist then (Some hist, Suc k)
          else yf_attempts e symbol period n (Suc k)
      | _ \<Rightarrow> yf_attempts e symbol period n (Suc k))"

definition sample_days :: "string \<Rightarrow> int" where
  "sample_days period =
     (if period \<in> set [''1mo'', ''7d''] then 30 else if period = ''6mo'' then 180 else 365)"

text \<open>The function after its cache check: the attempts, then the fallback.\<close>

definition fetch_miss :: "env \<Rightarrow> world \<Rightarrow> string \<Rightarrow> string \<Rightarrow> nat \<Rightarrow> (py_error + bar list) \<times> world" where
  "fetch_miss e w symbol period max_retries =
     (case yf_attempts e symbol period max_retries (yf_calls w) of
        (Some data, k) \<Rightarrow>
          (Inr data, w\<lparr>CACHE := (CACHE w)((symbol, period) \<mapsto> (data, time_now e)), yf_calls := k\<rparr>)
      | (None, k) \<Rightarrow>
          (let days = sample_days period;
               w1 = w\<lparr>yf_calls := k, sample_calls := Suc (sample_calls w)\<rparr>
           in case create_sample_data (today e) (rnd e (sample_calls w)) symbol days of
                Inl err \<Rightarrow> (Inl err, w1)
              | Inr data \<Rightarrow>
                  (Inr data, w1\<lparr>CACHE := (CACHE w1)((symbol, period) \<mapsto> (data, time_now e))\<rparr>)))"

definition fetch_yfinance_with_retry ::
    "env \<Rightarrow> world \<Rightarrow> string \<Rightarrow> string \<Rightarrow> nat \<Rightarrow> (py_error + bar list) \<times> world" where
  "fetch_yfinance_with_retry e w symbol period max_retries =
     (let cache_key = (symbol, period);
          now = time_now e;
          w0 = w\<lparr>cache_lookups := Suc (cache_lookups w)\<rparr>
      in case CACHE w0 cache_key of
           Some (data, timestamp) \<Rightarrow>
             if now - timestamp < CACHE_TTL then (Inr data, w0)
             else fetch_miss e (w0\<lparr>CACHE := (CACHE w0)(cache_key := None)\<rparr>) symbol period max_retries
         | None \<Rightarrow> fetch_miss e w0 symbol period max_retries)"

section \<open>The prices table and get_prices\<close>

text \<open>\<^verbatim>\<open>SELECT COUNT(*) FROM prices WHERE symbol = ? AND date >= DATE('now', '-1 day')\<close>, positive.\<close>

definition has_recent_data :: "(string \<times> bar) list \<Rightarrow> string \<Rightarrow> int \<Rightarrow> bool" where
  "has_recent_data tbl symbol sqlday =
     (0 < length (filter (\<lambda>(s, b). s = symbol \<and> sqlday - 1 \<le> date b) tbl))"

text \<open>\<^verbatim>\<open>DELETE FROM prices WHERE symbol = ?\<close>\<close>

definition delete_symbol :: "string \<Rightarrow> (string \<times> bar) list \<Rightarrow> (string \<times> bar) list" where
  "delete_symbol symbol tbl = filter (\<lambda>(s, b). s \<noteq> symbol) tbl"

text \<open>\<^verbatim>\<open>INSERT OR REPLACE INTO prices\<close>: the row with the same symbol and date goes first.\<close>

definition insert_or_replace :: "string \<Rightarrow> bar \<Rightarrow> (string \<times> bar) list \<Rightarrow> (string \<times> bar) list" where
  "insert_or_replace symbol row tbl =
     filter (\<lambda>(s, b). \<not> (s = symbol \<and> date b = date row)) tbl @ [(symbol, row)]"

text \<open>The delete and the loop of inserts of \<^verbatim>\<open>get_prices\<close>.\<close>

definition replace_series :: "(string \<times> bar) list \<Rightarrow> string \<Rightarrow> bar list \<Rightarrow> (string \<times> bar) list" where
  "replace_series tbl symbol price_data =
     fold (insert_or_replace symbol) price_data (delete_symbol symbol tbl)"

text \<open>\<^verbatim>\<open>SELECT ... FROM prices WHERE symbol = ? AND date >= ? ORDER BY date\<close>\<close>

definition select_window :: "(string \<times> bar) list \<Rightarrow> string \<Rightarrow> int \<Rightarrow> bar list" where
  "select_window tbl symbol start_date =
     sort_key date (map snd (filter (\<lambda>(s, b). s = symbol \<and> start_date \<le> date b) tbl))"

definition window_days :: "TimeRange \<Rightarrow> int" where
  "window_days rng =
     (if range_value rng = ''7d'' then 7 else if range_value rng = ''1mo'' then 30
      else if range_value rng = ''6mo'' then 180 else 365)"

text \<open>The dict that \<^verbatim>\<open>get_prices\<close> returns; its metrics are scaled and rounded.\<close>

record response =
  resp_symbol :: string
  resp_range :: string
  resp_data :: "bar list"
  resp_metrics :: Metrics

definition response_metrics :: "Metrics \<Rightarrow> Metrics" where
  "response_metrics m =
     \<lparr>returns = np_round2 (np_mul (returns m) (Some 100)),
      volatility = np_round2 (np_mul (volatility m) (Some 100)),
      max_drawdown = np_round2 (np_mul (max_drawdown m) (Some 100)),
      current_price = np_round2 (current_price m),
      price_change = np_round2 (price_change m),
      price_change_pct = np_round2 (np_mul (price_change_pct m) (Some 100))\<rparr>"

text \<open>The part of \<^verbatim>\<open>get_prices\<close> after the refresh: the window query and the response.\<close>

definition query_and_respond :: "env \<Rightarrow> world \<Rightarrow> string \<Rightarrow> TimeRange \<Rightarrow> (http_error + response) \<times> world" where
  "query_and_respond e w symbol rng =
     (case date_minus_days (today e) (window_days rng) of
        Inl err \<Rightarrow> (Inl (Unhandled err), w)
      | Inr start_date \<Rightarrow>
          (let rows = select_window (prices w) symbol start_date
           in if rows = [] then (Inl (HTTPException 404), w)
              else (Inr \<lparr>resp_symbol = symbol, resp_range = range_value rng, resp_data = rows,
                         resp_metrics = response_metrics (calculate_metrics rows)\<rparr>, w)))"

definition get_prices :: "env \<Rightarrow> world \<Rightarrow> string \<Rightarrow> TimeRange \<Rightarrow> (http_error + response) \<times> world" where
  "get_prices e w symbol0 rng =
     (let symbol = py_strip (py_upper symbol0);
          has_recent = has_recent_data (prices w) symbol (sql_today e)
      in if \<not> has_recent
         then (let period = yf_range_to_period (range_value rng)
               in case fetch_yfinance_with_retry e w symbol period 2 of
                    (Inl err, w1) \<Rightarrow> (Inl (HTTPException 500), w1)
                  | (Inr price_data, w1) \<Rightarrow>
                      query_and_respond e
                        (w1\<lparr>prices := replace_series (prices w1) symbol price_data\<rparr>) symbol rng)
         else query_and_respond e w symbol rng)"

section \<open>The summaries table and generate_summary\<close>

text \<open>\<^verbatim>\<open>SELECT text FROM summaries WHERE symbol = ? AND as_of = ? AND horizon = ?\<close>\<close>

definition get_summary :: "world \<Rightarrow> string \<times> int \<times> string \<Rightarrow> string option" where
  "get_summary w key = summaries w key"

text \<open>\<^verbatim>\<open>INSERT OR REPLACE INTO summaries (symbol, as_of, text, horizon)\<close>\<close>

definition put_summary :: "world \<Rightarrow> string \<times> int \<times> string \<Rightarrow> string \<Rightarrow> world" where
  "put_summary w key text = w\<lparr>summaries := (summaries w)(key \<mapsto> text)\<rparr>"

record summary_response =
  sum_symbol :: string
  summary :: string
  cached :: bool

text \<open>
  \<^verbatim>\<open>generate_mock_summary\<close> renders floats into a text; the model takes it as the
  parameter \<open>mock\<close>, a function of the symbol, the metrics and the range.
\<close>

definition generate_summary ::
    "(string \<Rightarrow> Metrics \<Rightarrow> string \<Rightarrow> string) \<Rightarrow> env \<Rightarrow> world \<Rightarrow> string \<Rightarrow> TimeRange
     \<Rightarrow> (http_error + summary_response) \<times> world" where
  "generate_summary mock e w symbol rng =
     (let key = (py_upper symbol, today e, range_value rng)
      in case get_summary w key of
           Some text \<Rightarrow> (Inr \<lparr>sum_symbol = py_upper symbol, summary = text, cached = True\<rparr>, w)
         | None \<Rightarrow>
             (case get_prices e w symbol rng of
                (Inl err, w1) \<Rightarrow> (Inl (HTTPException 400), w1)
              | (Inr price_response, w1) \<Rightarrow>
                  (let text = mock (py_upper symbol) (resp_metrics price_response) (range_value rng)
                   in (Inr \<lparr>sum_symbol = py_upper symbol, summary = text, cached = False\<rparr>,
                       put_summary w1 key text))))"


section \<open>Example inputs\<close>

text \<open>A bar of a given date and close, its other prices equal to the close.\<close>

definition bar_at :: "int \<Rightarrow> real \<Rightarrow> bar" where
  "bar_at d c = \<lparr>date = d, open_px = c, high = c, low = c, close = c, volume = 1000\<rparr>"

text \<open>
  Draws that lie in the ranges of the source: the price rises by 3% on the second day and
  stays there.
\<close>

definition smp0 :: samples where
  "smp0 = \<lparr>smp_change = (\<lambda>i. if i = 1 then 3 / 100 else 0), smp_volume = (\<lambda>i. 10000000),
           smp_high = (\<lambda>i. 1), smp_low = (\<lambda>i. 1), smp_open = (\<lambda>i. 0)\<rparr>"

text \<open>An environment whose upstream raises at every attempt; day 739000 is in the year 2024.\<close>

definition env0 :: env where
  "env0 = \<lparr>time_now = 1000, today = 739000, sql_today = 739000,
           yf_history = (\<lambda>k s p. YfRaise), rnd = (\<lambda>k. smp0)\<rparr>"

text \<open>A process that has just started on an empty database, and one with two fresh rows.\<close>

definition world0 :: world where
  "world0 = \<lparr>CACHE = Map.empty, prices = [], summaries = Map.empty,
             cache_lookups = 0, yf_calls = 0, sample_calls = 0\<rparr>"

definition world1 :: world where
  "world1 = world0\<lparr>prices := [(''AAPL'', bar_at 738999 100), (''AAPL'', bar_at 739000 110)]\<rparr>"

definition mock0 :: "string \<Rightarrow> Metrics \<Rightarrow> string \<Rightarrow> string" where
  "mock0 s m r = s @ '' brief''"

text \<open>An upstream that answers with two rows, and a second request 200 seconds later.\<close>

definition hist0 :: "bar list" where
  "hist0 = [bar_at 738999 100, bar_at 739000 110]"

definition env1 :: env where
  "env1 = env0\<lparr>yf_history := (\<lambda>k s p. YfHist hist0)\<rparr>"

definition env2 :: env where
  "env2 = env1\<lparr>time_now := 1200\<rparr>"

text \<open>The claim about a failing upstream reads an attempt as failed in these cases.\<close>

definition attempt_fails :: "yf_result \<Rightarrow> bool" where
  "attempt_fails r = (case r of YfHist hist \<Rightarrow> length hist < 2 | _ \<Rightarrow> True)"

text \<open>The total return in percent that a response over the rows \<open>d\<close> shows.\<close>

definition returns_pct :: "bar list \<Rightarrow> npfloat" where
  "returns_pct d = returns (response_metrics (calculate_metrics d))"

text \<open>
  The series that \<open>create_sample_data\<close> builds from the draws \<open>smp0\<close> on day 739000 for
  the symbol AAPL and 30 days, and its part in the window of a request for seven days.
\<close>

definition sample_bar :: "int \<Rightarrow> real \<Rightarrow> bar" where
  "sample_bar d c = \<lparr>date = d, open_px = c, high = c, low = c, close = c, volume = 10000000\<rparr>"

definition sample0 :: "bar list" where
  "sample0 = sample_bar 738971 180 # map (\<lambda>i. sample_bar (738971 + int i) (1854 / 10)) [1..<30]"

definition window0 :: "bar list" where
  "window0 = filter (\<lambda>b. today env0 - window_days SEVEN_DAYS \<le> date b) sample0"

section \<open>Properties of calculate_metrics\<close>

lemma length_sorted_closes: "length (sorted_closes bars) = length bars"
  by (simp add: sorted_closes_def)

lemma set_sorted_closes: "set (sorted_closes bars) = close ` set bars"
  by (simp add: sorted_closes_def)

lemma sorted_closes_two: "date b1 < date b2 \<Longrightarrow> sorted_closes [b1, b2] = [close b1, close b2]"
  by (simp add: sorted_closes_def)

lemma sorted_closes_three:
  "date b1 < date b2 \<Longrightarrow> date b2 < date b3 \<Longrightarrow>
   sorted_closes [b1, b2, b3] = [close b1, close b2, close b3]"
  by (simp add: sorted_closes_def)

lemma bar_at_simps: "date (bar_at d c) = d" "close (bar_at d c) = c"
  by (simp_all add: bar_at_def)

lemmas metrics_unfold =
  calculate_metrics_def Let_def daily_returns_of_def drawdown_of_def np_diff_def cumprod_def
  maximum_accumulate_def np_add_def np_sub_def np_mul_def np_div_def np_maximum_def np_min_def

text \<open>
  C4: for every series of fewer than two bars, the empty one too, \<open>calculate_metrics\<close>
  returns the snapshot whose six fields are all 0. The function is total and has no error
  outcome, so it raises nothing.
\<close>

theorem calculate_metrics_degenerate:
  "length prices_df < 2 \<Longrightarrow>
   calculate_metrics prices_df =
     \<lparr>returns = Some 0, volatility = Some 0, max_drawdown = Some 0,
      current_price = Some 0, price_change = Some 0, price_change_pct = Some 0\<rparr>"
  by (simp add: calculate_metrics_def)

theorem calculate_metrics_degenerate_witness:
  "length [bar_at 5 100] < 2 \<and>
   calculate_metrics [bar_at 5 100] =
     \<lparr>returns = Some 0, volatility = Some 0, max_drawdown = Some 0,
      current_price = Some 0, price_change = Some 0, price_change_pct = Some 0\<rparr> \<and>
   calculate_metrics [] =
     \<lparr>returns = Some 0, volatility = Some 0, max_drawdown = Some 0,
      current_price = Some 0, price_change = Some 0, price_change_pct = Some 0\<rparr>"
  using calculate_metrics_degenerate [of "[bar_at 5 100]"] calculate_metrics_degenerate [of "[]"]
  by simp

text \<open>
  C7: for two bars in chronological order with the closes 100 and 110 the total return is
  0.10, the price change is 10 and the price change in percent is 0.10; and for every series
  of at least two bars whose second-to-last close is 0, the price change in percent is the
  finite value 0: the guard \<^verbatim>\<open>closes[-2] != 0\<close> keeps the quotient, a numpy division
  like the others, away from the zero divisor.
\<close>

theorem calculate_metrics_price_change:
  "(date b1 < date b2 \<and> close b1 = 100 \<and> close b2 = 110 \<longrightarrow>
      returns (calculate_metrics [b1, b2]) = Some (10 / 100) \<and>
      price_change (calculate_metrics [b1, b2]) = Some 10 \<and>
      price_change_pct (calculate_metrics [b1, b2]) = Some (10 / 100)) \<and>
   (2 \<le> length prices_df \<and> sorted_closes prices_df ! (length prices_df - 2) = 0 \<longrightarrow>
      price_change_pct (calculate_metrics prices_df) = Some 0)"
  by (simp add: calculate_metrics_def Let_def sorted_closes_two np_div_def length_sorted_closes)

theorem calculate_metrics_price_change_witness:
  "(date (bar_at 1 100) < date (bar_at 2 110) \<and> close (bar_at 1 100) = 100 \<and>
    close (bar_at 2 110) = 110) \<and>
   returns (calculate_metrics [bar_at 1 100, bar_at 2 110]) = Some (10 / 100) \<and>
   price_change (calculate_metrics [bar_at 1 100, bar_at 2 110]) = Some 10 \<and>
   price_change_pct (calculate_metrics [bar_at 1 100, bar_at 2 110]) = Some (10 / 100) \<and>
   (2 \<le> length [bar_at 1 50, bar_at 2 0, bar_at 3 7] \<and>
    sorted_closes [bar_at 1 50, bar_at 2 0, bar_at 3 7] !
      (length [bar_at 1 50, bar_at 2 0, bar_at 3 7] - 2) = 0) \<and>
   price_change_pct (calculate_metrics [bar_at 1 50, bar_at 2 0, bar_at 3 7]) = Some 0"
  using calculate_metrics_price_change
          [of "bar_at 1 100" "bar_at 2 110" "[bar_at 1 50, bar_at 2 0, bar_at 3 7]"]
  by (simp add: bar_at_simps sorted_closes_three)

text \<open>
  C2: on the three bars with the closes 100, 90 and 95 the code returns the maximum drawdown
  0, not -0.10: the cumulative product is [0.9, 0.95], its running maximum is the same
  array, and the starting value 1.0 is in neither.
\<close>

theorem max_drawdown_first_bar_omitted:
  "max_drawdown (calculate_metrics [bar_at 1 100, bar_at 2 90, bar_at 3 95]) = Some 0"
  by (simp add: metrics_unfold sorted_closes_three bar_at_simps)

subsection \<open>Where a division meets a zero divisor\<close>

lemma those_eq_None_iff: "those xs = None \<longleftrightarrow> None \<in> set xs"
  by (induction xs) (auto split: option.splits)

lemma those_map_Some: "those (map Some xs) = Some xs"
  by (induction xs) auto

lemma np_std_None_iff: "np_std xs = None \<longleftrightarrow> xs = [] \<or> None \<in> set xs"
proof (cases "those xs")
  case None
  then show ?thesis by (simp add: np_std_def those_eq_None_iff[symmetric])
next
  case (Some rs)
  then have "None \<notin> set xs" using those_eq_None_iff[of xs] by simp
  moreover have "rs = [] \<longleftrightarrow> xs = []" using Some by (cases xs) (auto split: option.splits)
  ultimately show ?thesis using Some by (simp add: np_std_def)
qed

lemma np_min_None_iff: "np_min xs = None \<longleftrightarrow> xs = [] \<or> None \<in> set xs"
proof (cases "those xs")
  case None
  then show ?thesis by (simp add: np_min_def those_eq_None_iff[symmetric])
next
  case (Some rs)
  then have "None \<notin> set xs" using those_eq_None_iff[of xs] by simp
  moreover have "rs = [] \<longleftrightarrow> xs = []" using Some by (cases xs) (auto split: option.splits)
  ultimately show ?thesis using Some by (cases rs) (auto simp: np_min_def)
qed

lemma length_accumulate: "length (accumulate f a xs) = length xs"
  by (induction xs arbitrary: a) auto

lemma accumulate_mul_Some: "accumulate np_mul (Some a) (map Some xs) = map Some (accumulate (*) a xs)"
  by (induction xs arbitrary: a) (auto simp: np_mul_def)

lemma accumulate_max_Some: "accumulate np_maximum (Some a) (map Some xs) = map Some (accumulate max a xs)"
  by (induction xs arbitrary: a) (auto simp: np_maximum_def)

lemma accumulate_max_ge: "m \<in> set (accumulate max a xs) \<Longrightarrow> (a::real) \<le> m"
proof (induction xs arbitrary: a)
  case Nil
  then show ?case by simp
next
  case (Cons x xs)
  from Cons.prems have "m = max a x \<or> m \<in> set (accumulate max (max a x) xs)" by simp
  then show ?case
  proof
    assume "m = max a x" then show ?thesis by simp
  next
    assume "m \<in> set (accumulate max (max a x) xs)"
    then have "max a x \<le> m" by (rule Cons.IH)
    then show ?thesis by simp
  qed
qed

lemma length_np_diff: "length (np_diff cs) = length cs - 1"
  by (simp add: np_diff_def)

lemma length_daily_returns_of: "length (daily_returns_of cs) = length cs - 1"
  by (simp add: daily_returns_of_def length_np_diff)

lemma daily_returns_None_iff: "None \<in> set (daily_returns_of cs) \<longleftrightarrow> 0 \<in> set (butlast cs)"
proof
  assume "None \<in> set (daily_returns_of cs)"
  then obtain d c where "(d, c) \<in> set (zip (np_diff cs) (butlast cs))" "np_div (Some d) (Some c) = None"
    by (auto simp: daily_returns_of_def)
  then show "0 \<in> set (butlast cs)"
    by (auto simp: np_div_def split: if_splits dest: set_zip_rightD)
next
  assume "0 \<in> set (butlast cs)"
  then obtain i where i: "i < length (butlast cs)" "butlast cs ! i = 0"
    by (auto simp: in_set_conv_nth)
  then have "i < length (daily_returns_of cs)" by (simp add: length_daily_returns_of)
  moreover have "daily_returns_of cs ! i = None"
    using i by (simp add: daily_returns_of_def length_np_diff np_div_def)
  ultimately show "None \<in> set (daily_returns_of cs)"
    by (metis nth_mem)
qed

lemma daily_returns_Some:
  assumes "0 \<notin> set (butlast cs)"
  shows "daily_returns_of cs = map Some (map2 (\<lambda>d c. d / c) (np_diff cs) (butlast cs))"
  using assms by (auto simp: daily_returns_of_def np_div_def dest: set_zip_rightD)


lemma map2_div_None_iff:
  "length cs = length ms \<Longrightarrow>
   None \<in> set (map2 (\<lambda>c m. np_div (Some (c - m)) (Some m)) cs ms) \<longleftrightarrow> 0 \<in> set ms"
  by (induction cs ms rule: list_induct2) (auto simp: np_div_def)

lemma drawdown_of_Some:
  "drawdown_of (map Some (r # rs)) =
     (let cum = (1 + r) # accumulate (*) (1 + r) (map (\<lambda>r. 1 + r) rs);
          rm = hd cum # accumulate max (hd cum) (tl cum)
      in map2 (\<lambda>c m. np_div (Some (c - m)) (Some m)) cum rm)"
proof -
  define cum where "cum = (1 + r) # accumulate (*) (1 + r) (map (\<lambda>r. 1 + r) rs)"
  define rm where "rm = hd cum # accumulate max (hd cum) (tl cum)"
  have c: "cumprod (map (np_add (Some 1)) (map Some (r # rs))) = map Some cum"
    by (simp add: cum_def cumprod_def np_add_def accumulate_mul_Some[symmetric] comp_def)
  have m: "maximum_accumulate (map Some cum) = map Some rm"
    by (simp add: cum_def rm_def maximum_accumulate_def accumulate_max_Some)
  have "drawdown_of (map Some (r # rs)) = map2 (\<lambda>c m. np_div (np_sub c m) m) (map Some cum) (map Some rm)"
    unfolding drawdown_of_def c Let_def m ..
  also have "\<dots> = map2 (\<lambda>c m. np_div (Some (c - m)) (Some m)) cum rm"
    by (simp add: zip_map_map np_sub_def case_prod_unfold)
  finally show ?thesis by (simp add: Let_def cum_def rm_def)
qed

lemma drawdown_None_iff:
  "None \<in> set (drawdown_of (map Some (r # rs))) \<longleftrightarrow>
   0 \<in> set ((1 + r) # accumulate max (1 + r) (accumulate (*) (1 + r) (map (\<lambda>r. 1 + r) rs)))"
  unfolding drawdown_of_Some Let_def
  by (subst map2_div_None_iff) (simp_all add: length_accumulate)

lemma drawdown_nonempty: "drawdown_of (map Some (r # rs)) \<noteq> []"
  unfolding drawdown_of_Some Let_def by simp

lemma finite_metrics_calc:
  assumes "2 \<le> length prices_df"
  shows "finite_metrics (calculate_metrics prices_df) \<longleftrightarrow>
           hd (sorted_closes prices_df) \<noteq> 0 \<and>
           np_std (daily_returns_of (sorted_closes prices_df)) \<noteq> None \<and>
           np_min (drawdown_of (daily_returns_of (sorted_closes prices_df))) \<noteq> None"
  using assms
  by (simp add: finite_metrics_def calculate_metrics_def Let_def np_div_def np_mul_def
           split: option.splits)

lemma finite_imp_butlast_nonzero:
  assumes "2 \<le> length prices_df" "finite_metrics (calculate_metrics prices_df)"
  shows "0 \<notin> set (butlast (sorted_closes prices_df))"
proof -
  have "np_std (daily_returns_of (sorted_closes prices_df)) \<noteq> None"
    using assms finite_metrics_calc by blast
  then have "None \<notin> set (daily_returns_of (sorted_closes prices_df))"
    by (simp add: np_std_None_iff)
  then show ?thesis by (simp add: daily_returns_None_iff)
qed

lemma finite_metrics_closes:
  assumes cs: "sorted_closes prices_df = c0 # c1 # rest"
    and nz: "0 \<notin> set (butlast (c0 # c1 # rest))"
  shows "finite_metrics (calculate_metrics prices_df) \<longleftrightarrow>
     0 \<notin> set (c1 / c0 # accumulate max (c1 / c0) (accumulate (*) (c1 / c0)
             (map (\<lambda>r. 1 + r) (map2 (\<lambda>d c. d / c) (np_diff (c1 # rest)) (butlast (c1 # rest))))))"
proof -
  define r where "r = (c1 - c0) / c0"
  define rt where "rt = map2 (\<lambda>d c. d / c) (np_diff (c1 # rest)) (butlast (c1 # rest))"
  define drs where "drs = daily_returns_of (c0 # c1 # rest)"
  have len: "2 \<le> length prices_df"
    using cs length_sorted_closes[of prices_df] by simp
  have c0: "c0 \<noteq> 0" using nz by auto
  have r: "1 + r = c1 / c0" using c0 by (simp add: r_def field_simps)
  have dr: "drs = map Some (r # rt)"
    unfolding drs_def r_def rt_def using daily_returns_Some[OF nz] by (simp add: np_diff_def)
  have std: "np_std drs \<noteq> None"
    unfolding dr np_std_None_iff by auto
  have "drawdown_of drs \<noteq> []"
    unfolding dr by (rule drawdown_nonempty)
  then have "np_min (drawdown_of drs) \<noteq> None \<longleftrightarrow> None \<notin> set (drawdown_of drs)"
    by (simp only: np_min_None_iff simp_thms)
  also have "\<dots> \<longleftrightarrow> 0 \<notin> set (c1 / c0 # accumulate max (c1 / c0) (accumulate (*) (c1 / c0)
             (map (\<lambda>r. 1 + r) rt)))"
    unfolding dr drawdown_None_iff r ..
  finally show ?thesis
    using finite_metrics_calc[OF len] std c0 by (simp add: cs drs_def rt_def)
qed

lemma finite_metrics_nonneg:
  assumes len: "2 \<le> length prices_df"
    and nonneg: "\<forall>b\<in>set prices_df. 0 \<le> close b"
    and nz: "0 \<notin> set (butlast (sorted_closes prices_df))"
  shows "finite_metrics (calculate_metrics prices_df) \<longleftrightarrow>
     (length prices_df = 2 \<longrightarrow> last (sorted_closes prices_df) \<noteq> 0)"
proof -
  obtain c0 c1 rest where cs: "sorted_closes prices_df = c0 # c1 # rest"
    using len length_sorted_closes[of prices_df]
    by (cases "sorted_closes prices_df"; cases "tl (sorted_closes prices_df)") auto
  have nz': "0 \<notin> set (butlast (c0 # c1 # rest))" using nz cs by simp
  have "\<forall>c\<in>set (sorted_closes prices_df). 0 \<le> c"
    using nonneg by (auto simp: set_sorted_closes)
  then have pos: "0 < c0" "0 \<le> c1"
    using nz' cs by (auto simp: less_le)
  let ?rm = "c1 / c0 # accumulate max (c1 / c0) (accumulate (*) (c1 / c0)
             (map (\<lambda>r. 1 + r) (map2 (\<lambda>d c. d / c) (np_diff (c1 # rest)) (butlast (c1 # rest)))))"
  have "0 \<in> set ?rm \<longleftrightarrow> c1 = 0"
  proof
    assume "0 \<in> set ?rm"
    then have "c1 / c0 \<le> 0" using accumulate_max_ge by auto
    then show "c1 = 0" using pos by (simp add: divide_le_0_iff)
  next
    assume "c1 = 0" then show "0 \<in> set ?rm" by simp
  qed
  moreover have "c1 \<noteq> 0 \<longleftrightarrow> (length prices_df = 2 \<longrightarrow> last (sorted_closes prices_df) \<noteq> 0)"
  proof (cases rest)
    case Nil
    then show ?thesis using cs length_sorted_closes[of prices_df] by simp
  next
    case (Cons x xs)
    then show ?thesis using cs nz' length_sorted_closes[of prices_df] by auto
  qed
  ultimately show ?thesis using finite_metrics_closes[OF cs nz'] by simp
qed

lemma finite_metrics_pos:
  assumes "2 \<le> length prices_df" "\<forall>b\<in>set prices_df. 0 < close b"
  shows "finite_metrics (calculate_metrics prices_df)"
proof -
  have a: "\<forall>b\<in>set prices_df. 0 \<le> close b" using assms(2) by (auto intro: less_imp_le)
  have "\<forall>c\<in>set (sorted_closes prices_df). c \<noteq> 0"
    using assms(2) by (auto simp: set_sorted_closes)
  moreover have "sorted_closes prices_df \<noteq> []"
    using assms(1) length_sorted_closes[of prices_df] by auto
  ultimately have b: "0 \<notin> set (butlast (sorted_closes prices_df))"
      "last (sorted_closes prices_df) \<noteq> 0"
    by (auto dest: in_set_butlastD)
  show ?thesis using finite_metrics_nonneg[OF assms(1) a b(1)] b(2) by simp
qed

text \<open>
  C10, as the claim states it, fails: in the two bars with the closes 100 and 0 every close
  but the last is nonzero, and yet the maximum drawdown is not finite. The only daily return
  is -1, the cumulative product and its running maximum are 0, and the drawdown divides by
  that running maximum.
\<close>

theorem calculate_metrics_zero_last_counterexample:
  "0 \<notin> set (butlast (sorted_closes [bar_at 1 100, bar_at 2 0])) \<and>
   \<not> finite_metrics (calculate_metrics [bar_at 1 100, bar_at 2 0])"
  by (simp add: finite_metrics_def metrics_unfold sorted_closes_two bar_at_simps)

text \<open>
  C10, amended: \<open>calculate_metrics\<close> guards only the divisor of the price change in percent.
  For a series of at least two bars, a zero close before the last bar makes a field of the
  snapshot non-finite (numpy gives \<^verbatim>\<open>inf\<close> or \<^verbatim>\<open>nan\<close>, it raises nothing). For closes
  that are not negative, all six fields are finite exactly when every close but the last is
  nonzero and, in a series of exactly two bars, the last close is nonzero too.
\<close>

theorem calculate_metrics_finite_iff:
  assumes "2 \<le> length prices_df"
  shows "(finite_metrics (calculate_metrics prices_df) \<longrightarrow>
            0 \<notin> set (butlast (sorted_closes prices_df))) \<and>
         ((\<forall>b\<in>set prices_df. 0 \<le> close b) \<longrightarrow>
            (finite_metrics (calculate_metrics prices_df) \<longleftrightarrow>
               0 \<notin> set (butlast (sorted_closes prices_df)) \<and>
               (length prices_df = 2 \<longrightarrow> last (sorted_closes prices_df) \<noteq> 0)))"
  using assms finite_imp_butlast_nonzero finite_metrics_nonneg by blast

theorem calculate_metrics_finite_iff_witness:
  "2 \<le> length [bar_at 1 100, bar_at 2 110] \<and>
   list_all (\<lambda>b. 0 \<le> close b) [bar_at 1 100, bar_at 2 110] \<and>
   0 \<notin> set (butlast (sorted_closes [bar_at 1 100, bar_at 2 110])) \<and>
   finite_metrics (calculate_metrics [bar_at 1 100, bar_at 2 110])"
  using calculate_metrics_finite_iff [of "[bar_at 1 100, bar_at 2 110]"]
  by (simp add: sorted_closes_two bar_at_simps)

section \<open>Properties of the prices table\<close>

lemma symbol_rows_insert:
  "map snd (filter (\<lambda>(s, b). s = symbol) (insert_or_replace symbol row tbl)) =
   filter (\<lambda>b. date b \<noteq> date row) (map snd (filter (\<lambda>(s, b). s = symbol) tbl)) @ [row]"
  by (induction tbl) (auto simp: insert_or_replace_def)

lemma symbol_rows_fold:
  "distinct (map date price_data) \<Longrightarrow>
   \<forall>b\<in>set (map snd (filter (\<lambda>(s, b). s = symbol) tbl)). date b \<notin> date ` set price_data \<Longrightarrow>
   map snd (filter (\<lambda>(s, b). s = symbol) (fold (insert_or_replace symbol) price_data tbl)) =
   map snd (filter (\<lambda>(s, b). s = symbol) tbl) @ price_data"
proof (induction price_data arbitrary: tbl)
  case Nil
  then show ?case by simp
next
  case (Cons row rest)
  let ?rows = "map snd (filter (\<lambda>(s, b). s = symbol) tbl)"
  have keep: "filter (\<lambda>b. date b \<noteq> date row) ?rows = ?rows"
    using Cons.prems(2) by (auto simp: filter_id_conv)
  have step: "map snd (filter (\<lambda>(s, b). s = symbol) (insert_or_replace symbol row tbl)) = ?rows @ [row]"
    by (simp only: symbol_rows_insert keep)
  have "map snd (filter (\<lambda>(s, b). s = symbol)
          (fold (insert_or_replace symbol) rest (insert_or_replace symbol row tbl))) =
        map snd (filter (\<lambda>(s, b). s = symbol) (insert_or_replace symbol row tbl)) @ rest"
  proof (rule Cons.IH)
    show "distinct (map date rest)" using Cons.prems(1) by simp
    show "\<forall>b\<in>set (map snd (filter (\<lambda>(s, b). s = symbol) (insert_or_replace symbol row tbl))).
            date b \<notin> date ` set rest"
      unfolding step using Cons.prems by auto
  qed
  then show ?case by (simp add: step)
qed

lemma symbol_rows_delete: "filter (\<lambda>(s, b). s = symbol) (delete_symbol symbol tbl) = []"
  by (induction tbl) (auto simp: delete_symbol_def)

lemma symbol_rows_replace:
  "distinct (map date price_data) \<Longrightarrow>
   map snd (filter (\<lambda>(s, b). s = symbol) (replace_series tbl symbol price_data)) = price_data"
  unfolding replace_series_def
  by (subst symbol_rows_fold) (simp_all add: symbol_rows_delete)

lemma select_window_rows:
  "select_window tbl symbol start_date =
   sort_key date (filter (\<lambda>b. start_date \<le> date b) (map snd (filter (\<lambda>(s, b). s = symbol) tbl)))"
  unfolding select_window_def
  by (rule arg_cong[where f = "sort_key date"]) (induction tbl, auto)

lemma select_window_replace:
  "distinct (map date price_data) \<Longrightarrow>
   select_window (replace_series tbl symbol price_data) symbol start_date =
   sort_key date (filter (\<lambda>b. start_date \<le> date b) price_data)"
  by (simp add: select_window_rows symbol_rows_replace)

lemma other_rows_insert:
  "s' \<noteq> symbol \<Longrightarrow> filter (\<lambda>(s, b). s = s') (insert_or_replace symbol row tbl) = filter (\<lambda>(s, b). s = s') tbl"
  by (induction tbl) (auto simp: insert_or_replace_def)

text \<open>
  C6: for every symbol and every series of bars with distinct dates, the delete and the
  inserts of \<open>get_prices\<close> followed by its window query, with a start date that is not
  after any bar of the series, return the series in ascending order of date: the rows are
  exactly the bars of the series, whatever the table held before.
\<close>

theorem replace_then_window:
  assumes "distinct (map date series)" and "\<forall>b\<in>set series. since \<le> date b"
  shows "select_window (replace_series tbl symbol series) symbol since = sort_key date series \<and>
         sorted (map date (select_window (replace_series tbl symbol series) symbol since)) \<and>
         set (select_window (replace_series tbl symbol series) symbol since) = set series"
proof -
  have "filter (\<lambda>b. since \<le> date b) series = series"
    using assms(2) by (simp add: filter_id_conv)
  then have "select_window (replace_series tbl symbol series) symbol since = sort_key date series"
    using assms(1) by (simp add: select_window_replace)
  then show ?thesis by simp
qed

theorem replace_then_window_witness:
  "distinct (map date [bar_at 3 30, bar_at 1 10, bar_at 2 20]) \<and>
   list_all (\<lambda>b. 0 \<le> date b) [bar_at 3 30, bar_at 1 10, bar_at 2 20] \<and>
   select_window
     (replace_series [(''AAPL'', bar_at 1 99), (''AAPL'', bar_at 7 5), (''MSFT'', bar_at 2 1)]
        ''AAPL'' [bar_at 3 30, bar_at 1 10, bar_at 2 20]) ''AAPL'' 0 =
   [bar_at 1 10, bar_at 2 20, bar_at 3 30]"
  using replace_then_window [of "[bar_at 3 30, bar_at 1 10, bar_at 2 20]" 0
          "[(''AAPL'', bar_at 1 99), (''AAPL'', bar_at 7 5), (''MSFT'', bar_at 2 1)]" "''AAPL''"]
  by (simp add: bar_at_simps)

section \<open>Properties of the summaries table\<close>

lemma get_put_same: "get_summary (put_summary w key text) key = Some text"
  by (simp add: get_summary_def put_summary_def)

lemma get_put_other: "key' \<noteq> key \<Longrightarrow> get_summary (put_summary w key text) key' = get_summary w key'"
  by (simp add: get_summary_def put_summary_def)

lemma generate_summary_hit:
  "get_summary w (py_upper symbol, today e, range_value rng) = Some text \<Longrightarrow>
   generate_summary mock e w symbol rng =
     (Inr \<lparr>sum_symbol = py_upper symbol, summary = text, cached = True\<rparr>, w)"
  by (simp add: generate_summary_def)

lemma generate_summary_stores:
  assumes "generate_summary mock e w symbol rng = (Inr r, w1)"
  shows "get_summary w1 (py_upper symbol, today e, range_value rng) = Some (summary r) \<and>
         sum_symbol r = py_upper symbol"
  using assms
  by (auto simp: generate_summary_def Let_def get_summary_def put_summary_def
           split: option.splits prod.splits sum.splits)

lemma range_value_inj: "range_value a = range_value b \<longleftrightarrow> a = b"
  by (cases a; cases b) simp_all

lemma example_symbol: "py_upper ''aapl'' = ''AAPL''" "py_strip ''AAPL'' = ''AAPL''"
  by (simp_all add: py_strip_def is_space_def py_upper_def upper_char_def)

lemma example_summary:
  "generate_summary mock0 env0 world1 ''aapl'' ONE_MONTH =
     (Inr \<lparr>sum_symbol = ''AAPL'', summary = ''AAPL brief'', cached = False\<rparr>,
      put_summary world1 (''AAPL'', 739000, ''1mo'') ''AAPL brief'')"
  by (simp add: generate_summary_def get_summary_def get_prices_def example_symbol
        has_recent_data_def world1_def world0_def env0_def bar_at_simps query_and_respond_def
        date_minus_days_def window_days_def select_window_def Let_def mock0_def)

text \<open>
  C8: a summary stored under (symbol, as_of, horizon) is read back under the same key with
  the same text; storing it leaves another horizon of the same symbol and day without a
  result when it had none; and when a request for a summary has succeeded, a second request
  for the same symbol and range on the same day returns the same text, marked as cached,
  whatever the formatter would produce now, and leaves the state as it is.
\<close>

theorem summary_round_trip:
  "get_summary (put_summary w (symbol, as_of, horizon) text) (symbol, as_of, horizon) = Some text \<and>
   (horizon' \<noteq> horizon \<and> get_summary w (symbol, as_of, horizon') = None \<longrightarrow>
      get_summary (put_summary w (symbol, as_of, horizon) text) (symbol, as_of, horizon') = None) \<and>
   (generate_summary mock e w0 symb rng = (Inr r, w1) \<and> today e' = today e \<longrightarrow>
      generate_summary mock' e' w1 symb rng = (Inr (r\<lparr>cached := True\<rparr>), w1))"
proof (intro conjI impI)
  show "get_summary (put_summary w (symbol, as_of, horizon) text) (symbol, as_of, horizon) = Some text"
    by (rule get_put_same)
next
  assume "horizon' \<noteq> horizon \<and> get_summary w (symbol, as_of, horizon') = None"
  then show "get_summary (put_summary w (symbol, as_of, horizon) text) (symbol, as_of, horizon') = None"
    by (simp add: get_put_other)
next
  assume a: "generate_summary mock e w0 symb rng = (Inr r, w1) \<and> today e' = today e"
  then have "get_summary w1 (py_upper symb, today e', range_value rng) = Some (summary r)"
      and "sum_symbol r = py_upper symb"
    using generate_summary_stores[of mock e w0 symb rng r w1] by simp_all
  then show "generate_summary mock' e' w1 symb rng = (Inr (r\<lparr>cached := True\<rparr>), w1)"
    by (simp add: generate_summary_hit)
qed

theorem summary_round_trip_witness:
  "generate_summary mock0 env0 world1 ''aapl'' ONE_MONTH =
     (Inr \<lparr>sum_symbol = ''AAPL'', summary = ''AAPL brief'', cached = False\<rparr>,
      put_summary world1 (''AAPL'', 739000, ''1mo'') ''AAPL brief'') \<and>
   today env0 = today env0 \<and>
   generate_summary mock0 env0 (put_summary world1 (''AAPL'', 739000, ''1mo'') ''AAPL brief'')
       ''aapl'' ONE_MONTH =
     (Inr \<lparr>sum_symbol = ''AAPL'', summary = ''AAPL brief'', cached = True\<rparr>,
      put_summary world1 (''AAPL'', 739000, ''1mo'') ''AAPL brief'') \<and>
   ''7d'' \<noteq> ''1mo'' \<and> get_summary world1 (''AAPL'', 739000, ''7d'') = None \<and>
   get_summary (put_summary world1 (''AAPL'', 739000, ''1mo'') ''AAPL brief'')
       (''AAPL'', 739000, ''7d'') = None \<and>
   get_summary (put_summary world1 (''AAPL'', 739000, ''1mo'') ''AAPL brief'')
       (''AAPL'', 739000, ''1mo'') = Some ''AAPL brief''"
  using summary_round_trip [of world1 "''AAPL''" 739000 "''1mo''" "''AAPL brief''" "''7d''"
          mock0 env0 world1 "''aapl''" ONE_MONTH
          "\<lparr>sum_symbol = ''AAPL'', summary = ''AAPL brief'', cached = False\<rparr>"
          "put_summary world1 (''AAPL'', 739000, ''1mo'') ''AAPL brief''" env0 mock0]
        example_summary
  by (simp add: get_summary_def world1_def world0_def)

section \<open>Properties of create_sample_data\<close>

lemma date_minus_days_ok:
  "0 \<le> k \<Longrightarrow> k < d \<Longrightarrow> d \<le> 3652059 \<Longrightarrow> date_minus_days d k = Inr (d - k)"
  by (simp add: date_minus_days_def)

lemma walk_ok:
  assumes "\<forall>i\<in>set is. int i < days" "days \<le> tdy" "tdy \<le> 3652059"
  shows "\<exists>ps. walk tdy smp base days is dacc pacc =
                 Inr (dacc @ map (\<lambda>i. tdy - (days - int i - 1)) is, pacc @ ps) \<and>
              length ps = length is \<and> (0 \<le> base \<longrightarrow> (\<forall>p\<in>set ps. base * 0.7 \<le> p))"
  using assms(1)
proof (induction "is" arbitrary: dacc pacc)
  case Nil
  then show ?case by simp
next
  case (Cons i rest)
  define d where "d = tdy - (days - int i - 1)"
  define price where
    "price = (if i = 0 then base else max (last pacc * (1 + smp_change smp i)) (base * 0.7))"
  have i: "int i < days" using Cons.prems by simp
  have dm: "date_minus_days tdy (days - int i - 1) = Inr d"
    unfolding d_def using i assms(2,3) by (intro date_minus_days_ok) auto
  have "\<forall>i\<in>set rest. int i < days" using Cons.prems by simp
  from Cons.IH[OF this, of "dacc @ [d]" "pacc @ [price]"]
  obtain ps where ps: "walk tdy smp base days rest (dacc @ [d]) (pacc @ [price]) =
        Inr ((dacc @ [d]) @ map (\<lambda>i. tdy - (days - int i - 1)) rest, (pacc @ [price]) @ ps)"
      "length ps = length rest" "0 \<le> base \<longrightarrow> (\<forall>p\<in>set ps. base * 0.7 \<le> p)"
    by blast
  have pr: "0 \<le> base \<longrightarrow> base * 0.7 \<le> price"
    by (auto simp: price_def)
  have "walk tdy smp base days (i # rest) dacc pacc =
          Inr (dacc @ map (\<lambda>i. tdy - (days - int i - 1)) (i # rest), pacc @ (price # ps))"
    using dm ps(1) by (simp add: Let_def price_def d_def)
  moreover have "length (price # ps) = length (i # rest)" using ps(2) by simp
  moreover have "0 \<le> base \<longrightarrow> (\<forall>p\<in>set (price # ps). base * 0.7 \<le> p)"
    using pr ps(3) by simp
  ultimately show ?case by blast
qed

lemma round_half_even_ge_floor: "\<lfloor>y\<rfloor> \<le> round_half_even y"
  by (simp add: round_half_even_def Let_def)

lemma py_round2_ge:
  assumes "real_of_int k / 100 \<le> x"
  shows "real_of_int k / 100 \<le> py_round2 x"
proof -
  have "real_of_int k \<le> x * 100" using assms by (simp add: field_simps)
  then have "k \<le> \<lfloor>x * 100\<rfloor>" by (simp add: le_floor_iff)
  then have "k \<le> round_half_even (x * 100)"
    using round_half_even_ge_floor[of "x * 100"] by linarith
  then have "real_of_int k \<le> real_of_int (round_half_even (x * 100))" by simp
  then show ?thesis by (simp add: py_round2_def divide_right_mono)
qed

lemma base_price_values:
  "base_price_of symbol \<in> {180, 350, 140, 450, 380, 200, 100}"
  by (simp add: base_price_of_def base_prices_def)

lemma base_price_floor: "\<exists>k::int. base_price_of symbol * 0.7 = real_of_int k / 100 \<and> 0 < k"
proof -
  have "base_price_of symbol * 0.7 \<in> {real_of_int 12600 / 100, real_of_int 24500 / 100, real_of_int 9800 / 100,
      real_of_int 31500 / 100, real_of_int 26600 / 100, real_of_int 14000 / 100, real_of_int 7000 / 100}"
    using base_price_values[of symbol] by auto
  then show ?thesis by (elim insertE emptyE) (rule exI, erule conjI, simp)+
qed

lemma base_price_pos: "0 < base_price_of symbol"
  using base_price_values[of symbol] by auto

lemma date_make_bar: "date (make_bar smp i d p) = d" "close (make_bar smp i d p) = py_round2 p"
  by (simp_all add: make_bar_def Let_def)

lemma create_sample_data_ok:
  assumes "days \<le> tdy" "tdy \<le> 3652059"
  shows "\<exists>data. create_sample_data tdy smp symbol days = Inr data \<and>
           length data = nat days \<and>
           map date data = map (\<lambda>i. tdy - (days - int i - 1)) [0..<nat days] \<and>
           (\<forall>b\<in>set data. base_price_of symbol * 0.7 \<le> close b)"
proof -
  define ds where "ds = map (\<lambda>i. tdy - (days - int i - 1)) [0..<nat days]"
  have "\<forall>i\<in>set [0..<nat days]. int i < days" by auto
  from walk_ok[OF this assms, of smp "base_price_of symbol" "[]" "[]"]
  obtain ps where ps: "walk tdy smp (base_price_of symbol) days [0..<nat days] [] [] = Inr (ds, ps)"
      "length ps = nat days" "\<forall>p\<in>set ps. base_price_of symbol * 0.7 \<le> p"
    using base_price_pos[of symbol] unfolding ds_def by auto
  define data where
    "data = map (\<lambda>(i, d, price). make_bar smp i d price) (enumerate 0 (zip ds ps))"
  have len: "length ds = length ps" by (simp add: ds_def ps(2))
  have csd: "create_sample_data tdy smp symbol days = Inr data"
    by (simp add: create_sample_data_def ps(1) data_def)
  have l: "length data = nat days" by (simp add: data_def len ps(2))
  have "map date data = map (fst \<circ> snd) (enumerate 0 (zip ds ps))"
    by (auto simp: data_def date_make_bar)
  also have "\<dots> = map fst (zip ds ps)" by (metis map_map map_snd_enumerate)
  also have "\<dots> = ds" using len by simp
  finally have dts: "map date data = ds" .
  obtain k :: int where k: "base_price_of symbol * 0.7 = real_of_int k / 100"
    using base_price_floor by blast
  have cl: "\<forall>b\<in>set data. base_price_of symbol * 0.7 \<le> close b"
  proof
    fix b assume "b \<in> set data"
    then obtain i d p where "(i, d, p) \<in> set (enumerate 0 (zip ds ps))" "b = make_bar smp i d p"
      by (auto simp: data_def)
    then have "p \<in> set ps" "close b = py_round2 p"
      by (auto simp: in_set_enumerate_eq date_make_bar dest: set_zip_rightD)
    then show "base_price_of symbol * 0.7 \<le> close b"
      using ps(3) py_round2_ge[of k p] k by auto
  qed
  show ?thesis using csd l dts cl unfolding ds_def by blast
qed

lemma sample_dates_increasing:
  "sorted_wrt (<) (map (\<lambda>i. tdy - (days - int i - 1)) [0..<n])"
  by (simp add: sorted_wrt_map sorted_wrt_iff_nth_less)

lemma create_sample_data_overflow:
  assumes "tdy < days" "1 \<le> tdy"
  shows "create_sample_data tdy smp symbol days = Inl OverflowError"
proof -
  have "0 < nat days" using assms by simp
  then have "[0..<nat days] = 0 # [1..<nat days]" by (simp add: upt_conv_Cons)
  moreover have "date_minus_days tdy (days - int 0 - 1) = Inl OverflowError"
    using assms by (simp add: date_minus_days_def)
  ultimately show ?thesis by (simp add: create_sample_data_def)
qed

text \<open>
  C5, as the claim states it, fails: the call raises for a count of days that reaches
  before the year 1. On day 739000, a request for 739001 days raises
  \<^verbatim>\<open>OverflowError\<close> in the first iteration, at \<^verbatim>\<open>datetime.now() - timedelta(days=739000)\<close>.
\<close>

theorem create_sample_data_overflow_counterexample:
  "(0::int) \<le> 739001 \<and> create_sample_data 739000 smp0 ''AAPL'' 739001 = Inl OverflowError"
  by (simp add: create_sample_data_overflow)

text \<open>
  C5, amended: on a day \<open>tdy\<close> of the years 1 to 9999, for every symbol, every draw of the
  random values and every count of days from 0 to the ordinal of \<open>tdy\<close> (so that the first
  date is not before 0001-01-01; the callers pass 30, 180 and 365),
  \<open>create_sample_data\<close> returns exactly that many bars, with strictly increasing dates and
  every close at least 0.7 times the base price of the symbol; for a larger count it raises
  \<^verbatim>\<open>OverflowError\<close>. The base price of a symbol that is not in the table is 100.
\<close>

theorem create_sample_data_bars:
  assumes "0 \<le> days" "1 \<le> tdy" "tdy \<le> 3652059"
  shows "(days \<le> tdy \<longrightarrow>
           (\<exists>data. create_sample_data tdy smp symbol days = Inr data \<and>
              length data = nat days \<and> sorted_wrt (<) (map date data) \<and>
              (\<forall>b\<in>set data. 0.7 * base_price_of symbol \<le> close b))) \<and>
         (tdy < days \<longrightarrow> create_sample_data tdy smp symbol days = Inl OverflowError) \<and>
         (symbol \<notin> set [''AAPL'', ''MSFT'', ''GOOGL'', ''SPY'', ''QQQ'', ''TSLA''] \<longrightarrow>
            base_price_of symbol = 100)"
proof (intro conjI impI)
  assume "days \<le> tdy"
  from create_sample_data_ok[OF this assms(3), of smp symbol]
  obtain data where d: "create_sample_data tdy smp symbol days = Inr data"
      "length data = nat days"
      "map date data = map (\<lambda>i. tdy - (days - int i - 1)) [0..<nat days]"
      "\<forall>b\<in>set data. base_price_of symbol * 0.7 \<le> close b"
    by blast
  have "sorted_wrt (<) (map date data)" unfolding d(3) by (rule sample_dates_increasing)
  moreover have "\<forall>b\<in>set data. 0.7 * base_price_of symbol \<le> close b"
    using d(4) by (simp add: mult.commute)
  ultimately show "\<exists>data. create_sample_data tdy smp symbol days = Inr data \<and>
              length data = nat days \<and> sorted_wrt (<) (map date data) \<and>
              (\<forall>b\<in>set data. 0.7 * base_price_of symbol \<le> close b)"
    using d(1,2) by blast
next
  assume "tdy < days"
  then show "create_sample_data tdy smp symbol days = Inl OverflowError"
    using assms(2) by (rule create_sample_data_overflow)
next
  assume "symbol \<notin> set [''AAPL'', ''MSFT'', ''GOOGL'', ''SPY'', ''QQQ'', ''TSLA'']"
  then show "base_price_of symbol = 100"
    by (simp add: base_price_of_def base_prices_def)
qed

theorem create_sample_data_bars_witness:
  "(0::int) \<le> 30 \<and> (1::int) \<le> 739000 \<and> (739000::int) \<le> 3652059 \<and> (30::int) \<le> 739000 \<and>
   (\<exists>data. create_sample_data 739000 smp0 ''VTI'' 30 = Inr data \<and>
      length data = nat 30 \<and> sorted_wrt (<) (map date data) \<and>
      (\<forall>b\<in>set data. 0.7 * base_price_of ''VTI'' \<le> close b)) \<and>
   ''VTI'' \<notin> set [''AAPL'', ''MSFT'', ''GOOGL'', ''SPY'', ''QQQ'', ''TSLA''] \<and>
   base_price_of ''VTI'' = 100"
proof -
  have vti: "''VTI'' \<notin> set [''AAPL'', ''MSFT'', ''GOOGL'', ''SPY'', ''QQQ'', ''TSLA'']"
    by simp
  have "(0::int) \<le> 30" "(1::int) \<le> 739000" "(739000::int) \<le> 3652059" "(30::int) \<le> 739000"
    by simp_all
  with vti create_sample_data_bars [of 30 739000 smp0 "''VTI''"] show ?thesis
    by blast
qed

section \<open>Properties of fetch_yfinance_with_retry\<close>

lemma fetch_hit:
  assumes "CACHE w (symbol, period) = Some (data, ts)" "time_now e - ts < CACHE_TTL"
  shows "fetch_yfinance_with_retry e w symbol period n =
           (Inr data, w\<lparr>cache_lookups := Suc (cache_lookups w)\<rparr>)"
  using assms by (simp add: fetch_yfinance_with_retry_def Let_def)

lemma fetch_miss_cached:
  assumes "fetch_miss e w symbol period n = (Inr data, w1)"
  shows "CACHE w1 (symbol, period) = Some (data, time_now e) \<and> prices w1 = prices w \<and>
         summaries w1 = summaries w"
proof (cases "yf_attempts e symbol period n (yf_calls w)")
  case (Pair r k)
  show ?thesis
  proof (cases r)
    case None
    show ?thesis
    proof (cases "create_sample_data (today e) (rnd e (sample_calls w)) symbol (sample_days period)")
      case (Inl err)
      then show ?thesis using assms Pair None by (simp add: fetch_miss_def Let_def)
    next
      case (Inr d)
      then have "d = data"
        "w1 = w\<lparr>yf_calls := k, sample_calls := Suc (sample_calls w),
                 CACHE := (CACHE w)((symbol, period) \<mapsto> (data, time_now e))\<rparr>"
        using assms Pair None by (auto simp: fetch_miss_def Let_def)
      then show ?thesis by simp
    qed
  next
    case (Some d)
    then have "d = data"
      "w1 = w\<lparr>CACHE := (CACHE w)((symbol, period) \<mapsto> (data, time_now e)), yf_calls := k\<rparr>"
      using assms Pair by (auto simp: fetch_miss_def)
    then show ?thesis by simp
  qed
qed


lemma fetch_result:
  assumes "fetch_yfinance_with_retry e w symbol period n = (Inr data, w1)"
  shows "(w1 = w\<lparr>cache_lookups := Suc (cache_lookups w)\<rparr> \<and>
            (\<exists>ts. CACHE w (symbol, period) = Some (data, ts) \<and> time_now e - ts < CACHE_TTL)) \<or>
         CACHE w1 (symbol, period) = Some (data, time_now e)"
proof (cases "CACHE w (symbol, period)")
  case None
  then have "fetch_miss e (w\<lparr>cache_lookups := Suc (cache_lookups w)\<rparr>) symbol period n = (Inr data, w1)"
    using assms by (simp add: fetch_yfinance_with_retry_def Let_def)
  then show ?thesis using fetch_miss_cached by blast
next
  case (Some a)
  obtain d ts where a: "a = (d, ts)" by (cases a)
  show ?thesis
  proof (cases "time_now e - ts < CACHE_TTL")
    case True
    then show ?thesis using assms Some a by (auto simp: fetch_yfinance_with_retry_def Let_def)
  next
    case False
    then have "fetch_miss e (w\<lparr>cache_lookups := Suc (cache_lookups w),
                 CACHE := (CACHE w)((symbol, period) := None)\<rparr>) symbol period n = (Inr data, w1)"
      using assms Some a by (simp add: fetch_yfinance_with_retry_def Let_def)
    then show ?thesis using fetch_miss_cached by blast
  qed
qed

text \<open>
  C3: when a call of \<open>fetch_yfinance_with_retry\<close> has returned a series, the cache holds
  that series under (symbol, period), stamped with the time of the call unless the call was
  itself a pure cache hit; and every later call for the key within 300 seconds of that stamp
  returns the same series and changes nothing but the count of lookups: no attempt on the
  upstream, no call of the generator, the cache entry as it was. So the two calls together
  run the attempts and the fallback at most once.
\<close>

theorem fetch_twice_one_compute:
  assumes first: "fetch_yfinance_with_retry e1 w symbol period n = (Inr d1, w1)"
  shows "\<exists>ts. CACHE w1 (symbol, period) = Some (d1, ts) \<and>
           (ts = time_now e1 \<or> w1 = w\<lparr>cache_lookups := Suc (cache_lookups w)\<rparr>) \<and>
           (\<forall>e2 n2. time_now e2 - ts < CACHE_TTL \<longrightarrow>
              fetch_yfinance_with_retry e2 w1 symbol period n2 =
                (Inr d1, w1\<lparr>cache_lookups := Suc (cache_lookups w1)\<rparr>))"
proof -
  have "\<exists>ts. CACHE w1 (symbol, period) = Some (d1, ts) \<and>
           (ts = time_now e1 \<or> w1 = w\<lparr>cache_lookups := Suc (cache_lookups w)\<rparr>)"
    using fetch_result[OF first]
  proof (elim disjE conjE exE)
    fix ts'
    assume h: "w1 = w\<lparr>cache_lookups := Suc (cache_lookups w)\<rparr>"
       "CACHE w (symbol, period) = Some (d1, ts')"
    have "CACHE w1 (symbol, period) = Some (d1, ts')" by (simp add: h)
    then show ?thesis using h(1) by (intro exI[of _ ts'] conjI disjI2)
  next
    assume "CACHE w1 (symbol, period) = Some (d1, time_now e1)"
    then show ?thesis by (intro exI[of _ "time_now e1"] conjI disjI1 refl)
  qed
  then obtain ts where ts: "CACHE w1 (symbol, period) = Some (d1, ts)"
      "ts = time_now e1 \<or> w1 = w\<lparr>cache_lookups := Suc (cache_lookups w)\<rparr>"
    by (elim exE conjE)
  have "\<forall>e2 n2. time_now e2 - ts < CACHE_TTL \<longrightarrow>
              fetch_yfinance_with_retry e2 w1 symbol period n2 =
                (Inr d1, w1\<lparr>cache_lookups := Suc (cache_lookups w1)\<rparr>)"
    by (intro allI impI) (rule fetch_hit[OF ts(1)])
  with ts show ?thesis by (intro exI[of _ ts] conjI)
qed

lemma example_attempts: "yf_attempts env1 ''AAPL'' ''1mo'' 2 0 = (Some hist0, 1)"
proof -
  have "yf_attempts env1 ''AAPL'' ''1mo'' (Suc (Suc 0)) 0 = (Some hist0, Suc 0)"
    by (simp add: env1_def hist0_def)
  then show ?thesis by (simp add: numeral_2_eq_2)
qed

lemma example_fetch:
  "fetch_yfinance_with_retry env1 world0 ''AAPL'' ''1mo'' 2 =
     (Inr hist0, world0\<lparr>cache_lookups := 1, yf_calls := 1,
                        CACHE := [(''AAPL'', ''1mo'') \<mapsto> (hist0, 1000)]\<rparr>)"
proof -
  have "fetch_miss env1 (world0\<lparr>cache_lookups := Suc 0\<rparr>) ''AAPL'' ''1mo'' 2 =
     (Inr hist0, world0\<lparr>cache_lookups := 1, yf_calls := 1,
                        CACHE := [(''AAPL'', ''1mo'') \<mapsto> (hist0, 1000)]\<rparr>)"
    unfolding fetch_miss_def
    by (simp add: world0_def example_attempts) (simp add: env1_def env0_def)
  then show ?thesis
    by (simp add: fetch_yfinance_with_retry_def Let_def world0_def)
qed

theorem fetch_twice_one_compute_witness:
  "fetch_yfinance_with_retry env1 world0 ''AAPL'' ''1mo'' 2 =
     (Inr hist0, world0\<lparr>cache_lookups := 1, yf_calls := 1,
                        CACHE := [(''AAPL'', ''1mo'') \<mapsto> (hist0, 1000)]\<rparr>) \<and>
   time_now env2 - 1000 < CACHE_TTL \<and>
   fetch_yfinance_with_retry env2
       (world0\<lparr>cache_lookups := 1, yf_calls := 1,
               CACHE := [(''AAPL'', ''1mo'') \<mapsto> (hist0, 1000)]\<rparr>) ''AAPL'' ''1mo'' 2 =
     (Inr hist0, world0\<lparr>cache_lookups := 2, yf_calls := 1,
                        CACHE := [(''AAPL'', ''1mo'') \<mapsto> (hist0, 1000)]\<rparr>)"
proof -
  have t: "time_now env2 - 1000 < CACHE_TTL"
    by (simp add: env2_def CACHE_TTL_def)
  from fetch_twice_one_compute [OF example_fetch]
  obtain ts where ts:
      "CACHE (world0\<lparr>cache_lookups := 1, yf_calls := 1,
                CACHE := [(''AAPL'', ''1mo'') \<mapsto> (hist0, 1000)]\<rparr>) (''AAPL'', ''1mo'') =
         Some (hist0, ts)"
      "\<forall>e2 n2. time_now e2 - ts < CACHE_TTL \<longrightarrow>
         fetch_yfinance_with_retry e2
           (world0\<lparr>cache_lookups := 1, yf_calls := 1,
                   CACHE := [(''AAPL'', ''1mo'') \<mapsto> (hist0, 1000)]\<rparr>) ''AAPL'' ''1mo'' n2 =
         (Inr hist0,
          world0\<lparr>cache_lookups := 1, yf_calls := 1,
                  CACHE := [(''AAPL'', ''1mo'') \<mapsto> (hist0, 1000)]\<rparr>
            \<lparr>cache_lookups := Suc (cache_lookups
               (world0\<lparr>cache_lookups := 1, yf_calls := 1,
                       CACHE := [(''AAPL'', ''1mo'') \<mapsto> (hist0, 1000)]\<rparr>))\<rparr>)"
    by (elim exE conjE)
  from ts(1) have "ts = 1000" by simp
  with ts(2) t have "fetch_yfinance_with_retry env2
       (world0\<lparr>cache_lookups := 1, yf_calls := 1,
               CACHE := [(''AAPL'', ''1mo'') \<mapsto> (hist0, 1000)]\<rparr>) ''AAPL'' ''1mo'' 2 =
     (Inr hist0, world0\<lparr>cache_lookups := 2, yf_calls := 1,
                        CACHE := [(''AAPL'', ''1mo'') \<mapsto> (hist0, 1000)]\<rparr>)"
    by simp
  with example_fetch t show ?thesis by (intro conjI)
qed

section \<open>Properties of get_prices\<close>

lemma query_and_respond_world: "snd (query_and_respond e w symbol rng) = w"
  by (cases "date_minus_days (today e) (window_days rng)")
     (simp_all add: query_and_respond_def Let_def)

lemma query_and_respond_cong:
  assumes "today e' = today e" "prices w' = prices w"
  shows "fst (query_and_respond e' w' symbol rng) = fst (query_and_respond e w symbol rng)"
  unfolding query_and_respond_def assms
  by (cases "date_minus_days (today e) (window_days rng)") (simp_all add: Let_def)


lemma get_prices_fresh:
  "has_recent_data (prices w) (py_strip (py_upper symbol0)) (sql_today e) \<Longrightarrow>
   get_prices e w symbol0 rng = query_and_respond e w (py_strip (py_upper symbol0)) rng"
  unfolding get_prices_def Let_def by (simp only: not_True_eq_False if_False)

text \<open>
  C9: when the table holds a row of the normalized symbol dated no earlier than the day
  before SQLite's current day, \<open>get_prices\<close> leaves the whole state as it was, the
  cache, the table of prices and the three counters: no cache lookup, no attempt on the
  upstream, no generated series. Its result depends on the rows of the table and the clock
  alone.
\<close>

theorem get_prices_fresh_frame:
  assumes "has_recent_data (prices w) (py_strip (py_upper symbol0)) (sql_today e)"
  shows "snd (get_prices e w symbol0 rng) = w \<and>
         (\<forall>e' w'. today e' = today e \<and> sql_today e' = sql_today e \<and> prices w' = prices w \<longrightarrow>
            fst (get_prices e' w' symbol0 rng) = fst (get_prices e w symbol0 rng))"
proof (intro conjI allI impI)
  show "snd (get_prices e w symbol0 rng) = w"
    unfolding get_prices_fresh[OF assms] by (rule query_and_respond_world)
next
  fix e' :: env and w' :: world
  assume a: "today e' = today e \<and> sql_today e' = sql_today e \<and> prices w' = prices w"
  then have "has_recent_data (prices w') (py_strip (py_upper symbol0)) (sql_today e')"
    using assms by (simp only:)
  then show "fst (get_prices e' w' symbol0 rng) = fst (get_prices e w symbol0 rng)"
    unfolding get_prices_fresh[OF assms] get_prices_fresh[OF \<open>has_recent_data (prices w') (py_strip (py_upper symbol0)) (sql_today e')\<close>]
    using a by (intro query_and_respond_cong) simp_all
qed

lemma example_fresh:
  "has_recent_data (prices world1) (py_strip (py_upper ''aapl'')) (sql_today env0)"
  by (simp add: example_symbol has_recent_data_def world1_def world0_def env0_def bar_at_simps)

theorem get_prices_fresh_frame_witness:
  "has_recent_data (prices world1) (py_strip (py_upper ''aapl'')) (sql_today env0) \<and>
   snd (get_prices env0 world1 ''aapl'' ONE_MONTH) = world1 \<and>
   fst (get_prices env2 (world1\<lparr>cache_lookups := 7\<rparr>) ''aapl'' ONE_MONTH) =
   fst (get_prices env0 world1 ''aapl'' ONE_MONTH)"
proof -
  note t = get_prices_fresh_frame [OF example_fresh, of ONE_MONTH]
  have h: "today env2 = today env0 \<and> sql_today env2 = sql_today env0 \<and>
        prices (world1\<lparr>cache_lookups := 7\<rparr>) = prices world1"
    by (simp add: env2_def env1_def)
  have a: "snd (get_prices env0 world1 ''aapl'' ONE_MONTH) = world1"
    by (rule conjunct1[OF t])
  have b: "fst (get_prices env2 (world1\<lparr>cache_lookups := 7\<rparr>) ''aapl'' ONE_MONTH) =
           fst (get_prices env0 world1 ''aapl'' ONE_MONTH)"
    by (rule conjunct2[OF t, rule_format, OF h])
  show ?thesis by (intro conjI example_fresh a b)
qed

section \<open>A failing upstream, end to end\<close>

lemma yf_attempts_fail:
  "\<forall>k. attempt_fails (yf_history e k symbol period) \<Longrightarrow>
   yf_attempts e symbol period n k0 = (None, k0 + n)"
proof (induction n arbitrary: k0)
  case 0
  then show ?case by simp
next
  case (Suc n)
  have f: "attempt_fails (yf_history e k0 symbol period)" using Suc.prems by simp
  have "yf_attempts e symbol period (Suc n) k0 = yf_attempts e symbol period n (Suc k0)"
    using f by (cases "yf_history e k0 symbol period") (simp_all add: attempt_fails_def)
  then show ?case using Suc.IH[OF Suc.prems, of "Suc k0"] by simp
qed

lemma fetch_miss_fallback:
  assumes "\<forall>k. attempt_fails (yf_history e k symbol period)"
    and "create_sample_data (today e) (rnd e (sample_calls w)) symbol (sample_days period) = Inr data"
  shows "fetch_miss e w symbol period n =
     (Inr data, w\<lparr>yf_calls := yf_calls w + n, sample_calls := Suc (sample_calls w),
                   CACHE := (CACHE w)((symbol, period) \<mapsto> (data, time_now e))\<rparr>)"
  unfolding fetch_miss_def yf_attempts_fail[OF assms(1)]
  by (simp add: assms(2) Let_def)

lemma fetch_fallback:
  assumes fails: "\<forall>k. attempt_fails (yf_history e k symbol period)"
    and csd: "create_sample_data (today e) (rnd e (sample_calls w)) symbol (sample_days period) = Inr data"
    and stale: "\<forall>d ts. CACHE w (symbol, period) = Some (d, ts) \<longrightarrow> \<not> time_now e - ts < CACHE_TTL"
  shows "fetch_yfinance_with_retry e w symbol period n =
     (Inr data, w\<lparr>cache_lookups := Suc (cache_lookups w), yf_calls := yf_calls w + n,
                   sample_calls := Suc (sample_calls w),
                   CACHE := (CACHE w)((symbol, period) \<mapsto> (data, time_now e))\<rparr>)"
proof (cases "CACHE w (symbol, period)")
  case None
  have "fetch_yfinance_with_retry e w symbol period n =
          fetch_miss e (w\<lparr>cache_lookups := Suc (cache_lookups w)\<rparr>) symbol period n"
    using None by (simp add: fetch_yfinance_with_retry_def Let_def)
  also have "\<dots> = (Inr data, w\<lparr>cache_lookups := Suc (cache_lookups w), yf_calls := yf_calls w + n,
                   sample_calls := Suc (sample_calls w),
                   CACHE := (CACHE w)((symbol, period) \<mapsto> (data, time_now e))\<rparr>)"
    by (subst fetch_miss_fallback[OF fails, of _ data]) (simp_all add: csd)
  finally show ?thesis .
next
  case (Some a)
  obtain d ts where a: "a = (d, ts)" by (cases a)
  have ns: "\<not> time_now e - ts < CACHE_TTL" using stale Some a by simp
  have "fetch_yfinance_with_retry e w symbol period n =
          fetch_miss e (w\<lparr>cache_lookups := Suc (cache_lookups w),
                          CACHE := (CACHE w)((symbol, period) := None)\<rparr>) symbol period n"
    using Some a ns by (simp add: fetch_yfinance_with_retry_def Let_def)
  also have "\<dots> = (Inr data, w\<lparr>cache_lookups := Suc (cache_lookups w), yf_calls := yf_calls w + n,
                   sample_calls := Suc (sample_calls w),
                   CACHE := (CACHE w)((symbol, period) \<mapsto> (data, time_now e))\<rparr>)"
    by (subst fetch_miss_fallback[OF fails, of _ data]) (simp_all add: csd)
  finally show ?thesis .
qed

lemma period_of_range: "yf_range_to_period (range_value rng) = range_value rng"
  by (cases rng) (simp_all add: yf_range_to_period_def)

lemma sample_days_range:
  "sample_days (range_value rng) =
     (case rng of SEVEN_DAYS \<Rightarrow> 30 | ONE_MONTH \<Rightarrow> 30 | SIX_MONTHS \<Rightarrow> 180 | ONE_YEAR \<Rightarrow> 365)"
  by (cases rng) (simp_all add: sample_days_def)

lemma window_days_range:
  "window_days rng =
     (case rng of SEVEN_DAYS \<Rightarrow> 7 | ONE_MONTH \<Rightarrow> 30 | SIX_MONTHS \<Rightarrow> 180 | ONE_YEAR \<Rightarrow> 365)"
  by (cases rng) (simp_all add: window_days_def)

lemma no_rows_not_recent:
  "\<forall>row\<in>set tbl. fst row \<noteq> symbol \<Longrightarrow> \<not> has_recent_data tbl symbol sqlday"
  by (auto simp: has_recent_data_def filter_empty_conv)

lemma filter_upt_ge: "filter (\<lambda>i. k \<le> i) [0..<n] = [k..<n]"
  by (induction n) auto

lemma window_length:
  assumes md: "map date data = map (\<lambda>i. tdy - (days - int i - 1)) [0..<n]"
  shows "length (filter (\<lambda>b. tdy - wd \<le> date b) data) = n - nat (days - 1 - wd)"
proof -
  have "length (filter (\<lambda>b. tdy - wd \<le> date b) data) =
        length (filter (\<lambda>d. tdy - wd \<le> d) (map date data))"
    by (simp add: filter_map comp_def)
  also have "\<dots> = length (filter (\<lambda>i. tdy - wd \<le> tdy - (days - int i - 1)) [0..<n])"
    unfolding md by (simp add: filter_map comp_def)
  also have "(\<lambda>i. tdy - wd \<le> tdy - (days - int i - 1)) = (\<lambda>i. nat (days - 1 - wd) \<le> i)"
    by (rule ext) auto
  also have "length (filter (\<lambda>i. nat (days - 1 - wd) \<le> i) [0..<n]) = n - nat (days - 1 - wd)"
    by (simp add: filter_upt_ge)
  finally show ?thesis .
qed

lemma window_all:
  assumes md: "map date data = map (\<lambda>i. tdy - (days - int i - 1)) [0..<n]" and "days - 1 \<le> wd"
  shows "filter (\<lambda>b. tdy - wd \<le> date b) data = data"
proof -
  have "\<forall>d\<in>set (map date data). tdy - wd \<le> d"
    unfolding md using assms(2) by auto
  then show ?thesis by (simp add: filter_id_conv)
qed

lemma window_sorted:
  assumes "sorted_wrt (<) (map date data)"
  shows "sort_key date (filter P data) = filter P data"
proof -
  have "sorted (map date data)" using assms by (simp add: strict_sorted_iff)
  then have "sorted (map date (filter P data))" by (rule sorted_filter)
  then show ?thesis by (rule sort_key_id_if_sorted)
qed

lemma query_and_respond_rows:
  assumes "0 \<le> window_days rng" "window_days rng < today e" "today e \<le> 3652059"
    and "select_window (prices w) symbol (today e - window_days rng) = rows" "rows \<noteq> []"
  shows "query_and_respond e w symbol rng =
     (Inr \<lparr>resp_symbol = symbol, resp_range = range_value rng, resp_data = rows,
            resp_metrics = response_metrics (calculate_metrics rows)\<rparr>, w)"
  unfolding query_and_respond_def date_minus_days_ok[OF assms(1,2,3)]
  by (simp add: assms(4,5) Let_def)

lemma get_prices_fallback:
  assumes sym: "symbol = py_strip (py_upper symbol0)"
    and per: "period = yf_range_to_period (range_value rng)"
    and no_rows: "\<forall>row\<in>set (prices w). fst row \<noteq> symbol"
    and stale: "\<forall>d ts. CACHE w (symbol, period) = Some (d, ts) \<longrightarrow> \<not> time_now e - ts < CACHE_TTL"
    and fails: "\<forall>k. attempt_fails (yf_history e k symbol period)"
    and clock: "365 < today e" "today e \<le> 3652059"
  shows "\<exists>data rows w1.
      create_sample_data (today e) (rnd e (sample_calls w)) symbol (sample_days period) = Inr data \<and>
      length data = (case rng of SEVEN_DAYS \<Rightarrow> 30 | ONE_MONTH \<Rightarrow> 30
                               | SIX_MONTHS \<Rightarrow> 180 | ONE_YEAR \<Rightarrow> 365) \<and>
      w1 = w\<lparr>cache_lookups := Suc (cache_lookups w), yf_calls := yf_calls w + 2,
              sample_calls := Suc (sample_calls w),
              CACHE := (CACHE w)((symbol, period) \<mapsto> (data, time_now e))\<rparr> \<and>
      fetch_yfinance_with_retry e w symbol period 2 = (Inr data, w1) \<and>
      get_prices e w symbol0 rng =
        (Inr \<lparr>resp_symbol = symbol, resp_range = range_value rng, resp_data = rows,
               resp_metrics = response_metrics (calculate_metrics rows)\<rparr>,
         w1\<lparr>prices := replace_series (prices w) symbol data\<rparr>) \<and>
      rows = filter (\<lambda>b. today e - window_days rng \<le> date b) data \<and>
      (rng \<noteq> SEVEN_DAYS \<longrightarrow> rows = data) \<and>
      (rng = SEVEN_DAYS \<longrightarrow> length rows = 8) \<and>
      finite_metrics (calculate_metrics rows)"
proof -
  define days where "days = sample_days period"
  define wd where "wd = window_days rng"
  have p: "period = range_value rng" using per by (simp add: period_of_range)
  have days: "days = (case rng of SEVEN_DAYS \<Rightarrow> 30 | ONE_MONTH \<Rightarrow> 30
                               | SIX_MONTHS \<Rightarrow> 180 | ONE_YEAR \<Rightarrow> 365)"
    unfolding days_def p by (rule sample_days_range)
  have wd: "wd = (case rng of SEVEN_DAYS \<Rightarrow> 7 | ONE_MONTH \<Rightarrow> 30
                               | SIX_MONTHS \<Rightarrow> 180 | ONE_YEAR \<Rightarrow> 365)"
    unfolding wd_def by (rule window_days_range)
  have dle: "days \<le> today e" "0 \<le> wd" "wd < today e" "30 \<le> days"
    using clock(1) by (cases rng; simp add: days wd)+
  from create_sample_data_ok[OF dle(1) clock(2), of "rnd e (sample_calls w)" symbol]
  obtain data where d: "create_sample_data (today e) (rnd e (sample_calls w)) symbol days = Inr data"
      "length data = nat days"
      "map date data = map (\<lambda>i. today e - (days - int i - 1)) [0..<nat days]"
      "\<forall>b\<in>set data. base_price_of symbol * 0.7 \<le> close b"
    by blast
  define w1 where "w1 = w\<lparr>cache_lookups := Suc (cache_lookups w), yf_calls := yf_calls w + 2,
              sample_calls := Suc (sample_calls w),
              CACHE := (CACHE w)((symbol, period) \<mapsto> (data, time_now e))\<rparr>"
  define rows where "rows = filter (\<lambda>b. today e - wd \<le> date b) data"
  have fetch: "fetch_yfinance_with_retry e w symbol period 2 = (Inr data, w1)"
    unfolding w1_def using fetch_fallback[OF fails d(1)[unfolded days_def] stale, of 2] .
  have pw1: "prices w1 = prices w" by (simp add: w1_def)
  have srt: "sorted_wrt (<) (map date data)"
    unfolding d(3) by (rule sample_dates_increasing)
  then have dist: "distinct (map date data)" by (simp add: strict_sorted_iff)
  have sel: "select_window (replace_series (prices w) symbol data) symbol (today e - wd) = rows"
    unfolding rows_def by (simp add: select_window_replace[OF dist] window_sorted[OF srt])
  have len: "length rows = nat days - nat (days - 1 - wd)"
    unfolding rows_def by (rule window_length[OF d(3)])
  have len2: "2 \<le> length rows"
    unfolding len by (cases rng; simp add: days wd)
  then have ne: "rows \<noteq> []" by auto
  have len7: "rng = SEVEN_DAYS \<longrightarrow> length rows = 8"
    unfolding len by (simp add: days wd)
  have all: "rng \<noteq> SEVEN_DAYS \<longrightarrow> rows = data"
  proof
    assume "rng \<noteq> SEVEN_DAYS"
    then have "days - 1 \<le> wd" by (cases rng; simp add: days wd)
    then show "rows = data" unfolding rows_def by (rule window_all[OF d(3)])
  qed
  have "\<forall>b\<in>set rows. 0 < close b"
  proof
    fix b assume "b \<in> set rows"
    then have "b \<in> set data" by (simp add: rows_def)
    then have "base_price_of symbol * 0.7 \<le> close b" using d(4) by simp
    moreover have "0 < base_price_of symbol * 0.7" using base_price_pos[of symbol] by simp
    ultimately show "0 < close b" by linarith
  qed
  then have fin: "finite_metrics (calculate_metrics rows)"
    using len2 by (intro finite_metrics_pos)
  have nr: "\<not> has_recent_data (prices w) symbol (sql_today e)"
    using no_rows by (rule no_rows_not_recent)
  have "get_prices e w symbol0 rng =
          query_and_respond e (w1\<lparr>prices := replace_series (prices w1) symbol data\<rparr>) symbol rng"
    unfolding get_prices_def Let_def sym[symmetric] per[symmetric]
    using nr fetch by simp
  also have "\<dots> = (Inr \<lparr>resp_symbol = symbol, resp_range = range_value rng, resp_data = rows,
               resp_metrics = response_metrics (calculate_metrics rows)\<rparr>,
         w1\<lparr>prices := replace_series (prices w1) symbol data\<rparr>)"
    using dle(2,3) clock(2) sel ne
    by (intro query_and_respond_rows) (simp_all add: wd_def pw1)
  finally have gp: "get_prices e w symbol0 rng =
        (Inr \<lparr>resp_symbol = symbol, resp_range = range_value rng, resp_data = rows,
               resp_metrics = response_metrics (calculate_metrics rows)\<rparr>,
         w1\<lparr>prices := replace_series (prices w) symbol data\<rparr>)"
    by (simp only: pw1)
  have ld: "length data = (case rng of SEVEN_DAYS \<Rightarrow> 30 | ONE_MONTH \<Rightarrow> 30
                               | SIX_MONTHS \<Rightarrow> 180 | ONE_YEAR \<Rightarrow> 365)"
    unfolding d(2) by (cases rng; simp add: days)
  show ?thesis
    apply (rule exI[of _ data], rule exI[of _ rows], rule exI[of _ w1])
    apply (intro conjI)
    subgoal using d(1) by (simp only: days_def)
    subgoal by (rule ld)
    subgoal by (rule w1_def)
    subgoal by (rule fetch)
    subgoal by (rule gp)
    subgoal by (simp only: rows_def wd_def)
    subgoal by (rule all)
    subgoal by (rule len7)
    subgoal by (rule fin)
    done
qed

lemma example_data: "create_sample_data 739000 smp0 ''AAPL'' 30 = Inr sample0"
  by (simp add: create_sample_data_def base_price_of_def base_prices_def smp0_def make_bar_def
        py_round2_def round_half_even_def date_minus_days_def Let_def upt_rec
        sample0_def sample_bar_def)

lemma returns_calculate_metrics:
  assumes "2 \<le> length d" "sorted (map date d)"
  shows "returns (calculate_metrics d) =
           np_div (Some (close (last d) - close (hd d))) (Some (close (hd d)))"
proof -
  have sc: "sorted_closes d = map close d"
    using assms(2) by (simp add: sorted_closes_def sort_key_id_if_sorted)
  have ne: "d \<noteq> []" using assms(1) by auto
  have "\<not> length d < 2" using assms(1) by simp
  then show ?thesis
    by (simp add: calculate_metrics_def Let_def sc last_map hd_map ne)
qed

lemma sample0_props:
  "length sample0 = 30" "sorted (map date sample0)" "close (hd sample0) = 180"
  "close (last sample0) = 1854 / 10"
  by (simp_all add: sample0_def sample_bar_def upt_rec)

lemma window0_props:
  "length window0 = 8" "sorted (map date window0)" "close (hd window0) = 1854 / 10"
  "close (last window0) = 1854 / 10"
  by (simp_all add: window0_def sample0_def sample_bar_def upt_rec env0_def window_days_def)

lemma example_returns_series: "returns_pct sample0 = Some 3"
  by (simp add: returns_pct_def response_metrics_def returns_calculate_metrics sample0_props
       np_div_def np_mul_def np_round2_def py_round2_def round_half_even_def)

lemma example_returns_window: "returns_pct window0 = Some 0"
  by (simp add: returns_pct_def response_metrics_def returns_calculate_metrics window0_props
       np_div_def np_mul_def np_round2_def py_round2_def round_half_even_def)

lemma env0_simps:
  "today env0 = 739000" "time_now env0 = 1000" "rnd env0 k = smp0"
  "yf_history env0 k s p = YfRaise"
  by (simp_all add: env0_def)

lemma world0_simps:
  "prices world0 = []" "CACHE world0 key = None" "sample_calls world0 = 0"
  by (simp_all add: world0_def)

lemma example_fallback_hyps:
  "\<forall>row\<in>set (prices world0). fst row \<noteq> ''AAPL''"
  "\<forall>d ts. CACHE world0 (''AAPL'', period) = Some (d, ts) \<longrightarrow> \<not> time_now env0 - ts < CACHE_TTL"
  "\<forall>k. attempt_fails (yf_history env0 k ''AAPL'' period)"
  "365 < today env0" "today env0 \<le> 3652059"
  by (simp_all add: env0_simps world0_simps attempt_fails_def)

text \<open>
  C1, as the claim states it, fails for the range 7d. With an empty table, an empty cache and
  an upstream that raises at every attempt, the fallback series has 30 bars and a total return
  of 3%, while the response of \<open>get_prices\<close> holds the bars of the last seven days only and
  shows the total return 0: its metrics are not computed over the synthetic series.
\<close>

theorem failing_upstream_seven_days_counterexample:
  "map_sum id (returns \<circ> resp_metrics) (fst (get_prices env0 world0 ''aapl'' SEVEN_DAYS)) =
     Inr (Some 0) \<and>
   map_sum id returns_pct (fst (fetch_yfinance_with_retry env0 world0 ''AAPL'' ''7d'' 2)) =
     Inr (Some 3)"
proof -
  have sym: "''AAPL'' = py_strip (py_upper ''aapl'')" by (simp add: example_symbol)
  have per: "''7d'' = yf_range_to_period (range_value SEVEN_DAYS)"
    by (simp add: yf_range_to_period_def)
  from get_prices_fallback[OF sym per example_fallback_hyps]
  obtain data rows w1 where
      csd: "create_sample_data (today env0) (rnd env0 (sample_calls world0)) ''AAPL''
              (sample_days ''7d'') = Inr data"
    and fetch: "fetch_yfinance_with_retry env0 world0 ''AAPL'' ''7d'' 2 = (Inr data, w1)"
    and gp: "get_prices env0 world0 ''aapl'' SEVEN_DAYS =
        (Inr \<lparr>resp_symbol = ''AAPL'', resp_range = range_value SEVEN_DAYS, resp_data = rows,
               resp_metrics = response_metrics (calculate_metrics rows)\<rparr>,
         w1\<lparr>prices := replace_series (prices world0) ''AAPL'' data\<rparr>)"
    and rows: "rows = filter (\<lambda>b. today env0 - window_days SEVEN_DAYS \<le> date b) data"
    by (elim exE conjE)
  have "sample_days ''7d'' = 30" by (simp add: sample_days_def)
  with csd have "create_sample_data 739000 smp0 ''AAPL'' 30 = Inr data"
    by (simp only: env0_simps world0_simps)
  then have data: "data = sample0" by (simp add: example_data)
  have rows': "rows = window0" unfolding rows data window0_def ..
  have "map_sum id (returns \<circ> resp_metrics) (fst (get_prices env0 world0 ''aapl'' SEVEN_DAYS)) =
        Inr (returns_pct window0)"
    unfolding gp rows' by (simp add: returns_pct_def)
  moreover have "map_sum id returns_pct (fst (fetch_yfinance_with_retry env0 world0 ''AAPL'' ''7d'' 2)) =
        Inr (returns_pct sample0)"
    unfolding fetch data by simp
  ultimately show ?thesis by (simp only: example_returns_series example_returns_window simp_thms)
qed

text \<open>
  C1, amended: take a request whose normalized symbol has no row in the table and no cache
  entry younger than 300 seconds, with an upstream that fails at every attempt (an exception,
  no frame, or fewer than two rows), on a day from the year 2 to the year 9999. Then
  \<open>fetch_yfinance_with_retry\<close> raises nothing: after its two attempts it returns the series
  of \<open>create_sample_data\<close> (30 bars for 7d and 1mo, 180 for 6mo, 365 for 1y) and stores it
  in the cache under (symbol, period) with the time of the call. \<open>get_prices\<close> succeeds, with
  no status 500 or 404: its rows are the bars of that series in the requested window, which
  is the whole series for 1mo, 6mo and 1y and its last 8 bars for 7d, and its metrics are
  computed over these rows and are all finite.
\<close>

theorem failing_upstream_falls_back:
  assumes "symbol = py_strip (py_upper symbol0)"
    and "period = yf_range_to_period (range_value rng)"
    and "\<forall>row\<in>set (prices w). fst row \<noteq> symbol"
    and "\<forall>d ts. CACHE w (symbol, period) = Some (d, ts) \<longrightarrow> \<not> time_now e - ts < CACHE_TTL"
    and "\<forall>k. attempt_fails (yf_history e k symbol period)"
    and "365 < today e" "today e \<le> 3652059"
  shows "\<exists>data rows w1.
      create_sample_data (today e) (rnd e (sample_calls w)) symbol (sample_days period) = Inr data \<and>
      length data = (case rng of SEVEN_DAYS \<Rightarrow> 30 | ONE_MONTH \<Rightarrow> 30
                               | SIX_MONTHS \<Rightarrow> 180 | ONE_YEAR \<Rightarrow> 365) \<and>
      w1 = w\<lparr>cache_lookups := Suc (cache_lookups w), yf_calls := yf_calls w + 2,
              sample_calls := Suc (sample_calls w),
              CACHE := (CACHE w)((symbol, period) \<mapsto> (data, time_now e))\<rparr> \<and>
      fetch_yfinance_with_retry e w symbol period 2 = (Inr data, w1) \<and>
      get_prices e w symbol0 rng =
        (Inr \<lparr>resp_symbol = symbol, resp_range = range_value rng, resp_data = rows,
               resp_metrics = response_metrics (calculate_metrics rows)\<rparr>,
         w1\<lparr>prices := replace_series (prices w) symbol data\<rparr>) \<and>
      rows = filter (\<lambda>b. today e - window_days rng \<le> date b) data \<and>
      (rng \<noteq> SEVEN_DAYS \<longrightarrow> rows = data) \<and>
      (rng = SEVEN_DAYS \<longrightarrow> length rows = 8) \<and>
      finite_metrics (calculate_metrics rows)"
  using assms by (rule get_prices_fallback)

theorem failing_upstream_falls_back_witness:
  "''AAPL'' = py_strip (py_upper ''aapl'') \<and>
   ''1mo'' = yf_range_to_period (range_value ONE_MONTH) \<and>
   prices world0 = [] \<and> CACHE world0 (''AAPL'', ''1mo'') = None \<and>
   attempt_fails (yf_history env0 0 ''AAPL'' ''1mo'') \<and>
   attempt_fails (yf_history env0 1 ''AAPL'' ''1mo'') \<and>
   365 < today env0 \<and> today env0 \<le> 3652059 \<and>
   (\<exists>data rows w1.
      create_sample_data (today env0) (rnd env0 (sample_calls world0)) ''AAPL''
        (sample_days ''1mo'') = Inr data \<and>
      length data = (case ONE_MONTH of SEVEN_DAYS \<Rightarrow> 30 | ONE_MONTH \<Rightarrow> 30
                               | SIX_MONTHS \<Rightarrow> 180 | ONE_YEAR \<Rightarrow> 365) \<and>
      w1 = world0\<lparr>cache_lookups := Suc (cache_lookups world0), yf_calls := yf_calls world0 + 2,
              sample_calls := Suc (sample_calls world0),
              CACHE := (CACHE world0)((''AAPL'', ''1mo'') \<mapsto> (data, time_now env0))\<rparr> \<and>
      fetch_yfinance_with_retry env0 world0 ''AAPL'' ''1mo'' 2 = (Inr data, w1) \<and>
      get_prices env0 world0 ''aapl'' ONE_MONTH =
        (Inr \<lparr>resp_symbol = ''AAPL'', resp_range = range_value ONE_MONTH, resp_data = rows,
               resp_metrics = response_metrics (calculate_metrics rows)\<rparr>,
         w1\<lparr>prices := replace_series (prices world0) ''AAPL'' data\<rparr>) \<and>
      rows = filter (\<lambda>b. today env0 - window_days ONE_MONTH \<le> date b) data \<and>
      (ONE_MONTH \<noteq> SEVEN_DAYS \<longrightarrow> rows = data) \<and>
      (ONE_MONTH = SEVEN_DAYS \<longrightarrow> length rows = 8) \<and>
      finite_metrics (calculate_metrics rows))"
proof -
  have sym: "''AAPL'' = py_strip (py_upper ''aapl'')" by (simp add: example_symbol)
  have per: "''1mo'' = yf_range_to_period (range_value ONE_MONTH)"
    by (simp add: yf_range_to_period_def)
  have h: "prices world0 = []" "CACHE world0 (''AAPL'', ''1mo'') = None"
      "attempt_fails (yf_history env0 0 ''AAPL'' ''1mo'')"
      "attempt_fails (yf_history env0 1 ''AAPL'' ''1mo'')"
    by (simp_all add: env0_simps world0_simps attempt_fails_def)
  note t = failing_upstream_falls_back [OF sym per example_fallback_hyps]
  show ?thesis
    by (intro conjI sym per h example_fallback_hyps(4,5) t)
qed

end
